theory Spec2Isabelle
  imports Main "HOL-Library.AList"
begin

section \<open>Errors\<close>

text \<open>
  The Go \<open>error\<close> values that flow through \<open>resource_project.go\<close>.
  \<^item> \<open>NetError tmo tmp msg\<close> is any value implementing \<open>net.Error\<close>:
    \<open>Timeout()\<close>, \<open>Temporary()\<close> and \<open>Error()\<close>.
  \<^item> \<open>GetProjectConflict\<close>, \<open>GetProjectUnauthorized\<close> and
    \<open>GetProjectDefault code\<close> are the generated client's typed responses;
    \<open>Code()\<close> of the last is its argument.
  \<^item> \<open>OtherError msg\<close> is any other error value.
  \<^item> \<open>Errorf fmt args\<close> is the result of \<open>fmt.Errorf(fmt, args...)\<close>, kept
    as the format string and its arguments.
  \<^item> \<open>TimeoutError\<close>, \<open>UnexpectedStateError\<close> and \<open>NotFoundError\<close>
    are the errors of the plugin SDK's \<open>helper/resource\<close> package.
\<close>

datatype 'e fmt_arg = S string | E 'e

datatype go_error =
    NetError bool bool string
  | GetProjectConflict
  | GetProjectUnauthorized
  | GetProjectDefault int
  | OtherError string
  | Errorf string "go_error fmt_arg list"
  | TimeoutError string "string list"
  | UnexpectedStateError string "string list"
  | NotFoundError nat

section \<open>Data\<close>

type_synonym go_map = "(string \<times> string) list"

text \<open>
  A Go \<open>map[string]string\<close> is an association list with distinct keys, in the
  order a \<open>range\<close> loop visits it; \<open>m[key] = val\<close> is \<open>AList.update\<close>.
  A \<open>nil\<close> map is \<open>None\<close>.

  \<open>models.Project\<close>, with the fields the resource reads or writes. A timestamp
  is kept as what its \<open>String()\<close> returns, which is all the code uses of it;
  \<open>zeroDateTime\<close> is that of the zero value.
\<close>

record Project =
  ID :: string
  Name :: string
  Labels :: "go_map option"
  Status :: string
  CreationTimestamp :: string
  DeletionTimestamp :: string

definition zeroDateTime :: string where
  "zeroDateTime = ''0001-01-01T00:00:00.000Z''"

record CreateProjectBody =
  body_Name :: string
  body_Labels :: "go_map option"

text \<open>
  \<open>schema.ResourceData\<close>: the stored identity, the five attributes of the schema
  (lines 26-47), the prior values of the two configurable attributes (what
  \<open>GetChange\<close> returns as \<open>old\<close>), the three timeouts, and the outcome of
  \<open>d.Set\<close> per key. A timeout is the number of probes the refresh loop completes
  before the deadline: the delays between probes (\<open>Delay\<close>, \<open>MinTimeout\<close>
  and the back-off of the SDK) decide how many probes fit in a duration, and nothing
  else.

  \<open>HasChange\<close> compares the prior and the desired value, two maps as maps.
  \<open>Set_attr\<close> is \<open>d.Set\<close>: it stores the value unless the key is one whose
  \<open>Set\<close> fails.
\<close>

record ResourceData =
  d_Id :: string
  name :: string
  labels :: go_map
  status :: string
  creation_timestamp :: string
  deletion_timestamp :: string
  old_name :: string
  old_labels :: go_map
  TimeoutCreate :: nat
  TimeoutRead :: nat
  TimeoutDelete :: nat
  SetFails :: "string \<Rightarrow> go_error option"

definition HasChange :: "ResourceData \<Rightarrow> string \<Rightarrow> bool" where
  "HasChange d key =
     (if key = ''name'' then old_name d \<noteq> name d
      else if key = ''labels'' then set (old_labels d) \<noteq> set (labels d)
      else False)"

definition Set_attr ::
  "ResourceData \<Rightarrow> string \<Rightarrow> (ResourceData \<Rightarrow> ResourceData) \<Rightarrow> go_error option \<times> ResourceData" where
  "Set_attr d key upd =
     (case SetFails d key of Some e \<Rightarrow> (Some e, d) | None \<Rightarrow> (None, upd d))"

section \<open>The remote client\<close>

text \<open>
  \<open>k.client.Project\<close>: the four remote calls. The answer of \<open>GetProject\<close>
  depends on how many \<open>GetProject\<close> calls were made before it. The state
  \<open>remote\<close> counts those calls and logs every request sent.
\<close>

datatype request =
    CreateReq CreateProjectBody
  | GetReq string
  | UpdateReq string Project
  | DeleteReq string

record provider =
  CreateProject :: "CreateProjectBody \<Rightarrow> go_error + Project"
  GetProject :: "nat \<Rightarrow> string \<Rightarrow> go_error + Project"
  UpdateProject :: "string \<Rightarrow> Project \<Rightarrow> go_error option"
  DeleteProject :: "string \<Rightarrow> go_error option"

record remote =
  gets :: nat
  sent :: "request list"

definition call_CreateProject ::
  "provider \<Rightarrow> CreateProjectBody \<Rightarrow> remote \<Rightarrow> (go_error + Project) \<times> remote" where
  "call_CreateProject k b w = (CreateProject k b, w\<lparr>sent := sent w @ [CreateReq b]\<rparr>)"

definition call_GetProject ::
  "provider \<Rightarrow> string \<Rightarrow> remote \<Rightarrow> (go_error + Project) \<times> remote" where
  "call_GetProject k i w =
     (GetProject k (gets w) i, w\<lparr>gets := Suc (gets w), sent := sent w @ [GetReq i]\<rparr>)"

definition call_UpdateProject ::
  "provider \<Rightarrow> string \<Rightarrow> Project \<Rightarrow> remote \<Rightarrow> go_error option \<times> remote" where
  "call_UpdateProject k i b w = (UpdateProject k i b, w\<lparr>sent := sent w @ [UpdateReq i b]\<rparr>)"

definition call_DeleteProject ::
  "provider \<Rightarrow> string \<Rightarrow> remote \<Rightarrow> go_error option \<times> remote" where
  "call_DeleteProject k i w = (DeleteProject k i, w\<lparr>sent := sent w @ [DeleteReq i]\<rparr>)"

section \<open>The SDK's wait and retry loops\<close>

text \<open>
  \<open>resource.StateChangeConf.WaitForState\<close> and \<open>resource.Retry\<close> of the
  plugin SDK (\<open>helper/resource\<close>), which the four operations call.

  \<open>WaitForState\<close> calls \<open>Refresh\<close> until the deadline. An error of
  \<open>Refresh\<close> ends the wait with that error. A \<open>nil\<close> result counts as
  not found: it ends the wait when there is no target, and fails after
  \<open>NotFoundChecks\<close> (20) such answers in a row. Otherwise a state in
  \<open>Target\<close> ends the wait, a state in \<open>Pending\<close> continues it, and any
  other state fails with \<open>UnexpectedStateError\<close> when \<open>Pending\<close> is not
  empty. At the deadline the wait fails with \<open>TimeoutError\<close>, which holds the last
  state seen. Neither use sets \<open>ContinuousTargetOccurence\<close>, so the first target
  state ends the wait. The first argument of \<open>refreshLoop\<close> is the number of
  probes left before the deadline.
\<close>

record StateChangeConf =
  Pending :: "string list"
  Target :: "string list"
  Timeout :: nat

definition NotFoundChecks :: nat where
  "NotFoundChecks = 20"

fun refreshLoop ::
  "nat \<Rightarrow> StateChangeConf \<Rightarrow> ('s \<Rightarrow> ('r option \<times> string \<times> go_error option) \<times> 's)
     \<Rightarrow> nat \<Rightarrow> string \<Rightarrow> 's \<Rightarrow> ('r option \<times> go_error option) \<times> 's" where
  "refreshLoop 0 conf Refresh notfoundTick lastState s =
     ((None, Some (TimeoutError lastState (Target conf))), s)"
| "refreshLoop (Suc n) conf Refresh notfoundTick lastState s =
     (case Refresh s of
        ((res, currentState, Some err), s') \<Rightarrow> ((res, Some err), s')
      | ((None, currentState, None), s') \<Rightarrow>
          if Target conf = [] then ((None, None), s')
          else if Suc notfoundTick > NotFoundChecks
            then ((None, Some (NotFoundError (Suc notfoundTick))), s')
          else refreshLoop n conf Refresh (Suc notfoundTick) currentState s'
      | ((Some r, currentState, None), s') \<Rightarrow>
          if currentState \<in> set (Target conf) then ((Some r, None), s')
          else if currentState \<in> set (Pending conf)
            then refreshLoop n conf Refresh 0 currentState s'
          else if Pending conf \<noteq> []
            then ((Some r, Some (UnexpectedStateError currentState (Target conf))), s')
          else refreshLoop n conf Refresh 0 currentState s')"

definition WaitForState ::
  "StateChangeConf \<Rightarrow> ('s \<Rightarrow> ('r option \<times> string \<times> go_error option) \<times> 's)
     \<Rightarrow> 's \<Rightarrow> ('r option \<times> go_error option) \<times> 's" where
  "WaitForState conf Refresh s = refreshLoop (Timeout conf) conf Refresh 0 [] s"

datatype RetryError = RetryError (Err: go_error) (Retryable: bool)

definition RetryableError :: "go_error \<Rightarrow> RetryError" where
  "RetryableError e = RetryError e True"

definition NonRetryableError :: "go_error \<Rightarrow> RetryError" where
  "NonRetryableError e = RetryError e False"

text \<open>
  \<open>Retry\<close> runs \<open>f\<close> under \<open>WaitForState\<close> with pending state
  \<open>retryableerror\<close> and target \<open>success\<close>. Its refresh function keeps the
  error of the last attempt in \<open>resultErr\<close>; that error, when there is one, is
  what \<open>Retry\<close> returns, and the wait's own error otherwise.
\<close>

definition retryRefresh ::
  "('s \<Rightarrow> RetryError option \<times> 's) \<Rightarrow> 's \<times> go_error option
     \<Rightarrow> (nat option \<times> string \<times> go_error option) \<times> ('s \<times> go_error option)" where
  "retryRefresh f = (\<lambda>(s, resultErr).
     (case f s of
        (None, s') \<Rightarrow> ((Some 42, ''success'', None), (s', None))
      | (Some rerr, s') \<Rightarrow>
          if Retryable rerr
            then ((Some 42, ''retryableerror'', None), (s', Some (Err rerr)))
          else ((None, ''quit'', Some (Err rerr)), (s', Some (Err rerr)))))"

definition Retry ::
  "nat \<Rightarrow> ('s \<Rightarrow> RetryError option \<times> 's) \<Rightarrow> 's \<Rightarrow> go_error option \<times> 's" where
  "Retry timeout f s =
     (case WaitForState
             \<lparr>Pending = [''retryableerror''], Target = [''success''], Timeout = timeout\<rparr>
             (retryRefresh f) (s, None) of
        ((res, waitErr), (s', resultErr)) \<Rightarrow>
          (case resultErr of None \<Rightarrow> (waitErr, s') | Some e \<Rightarrow> (Some e, s')))"

section \<open>The project resource\<close>

text \<open>
  The four operations of \<open>resource_project.go\<close>. Each takes the provider, the
  local state and the remote state, and returns the error (\<open>None\<close> for
  \<open>nil\<close>), the local state and the remote state. The debug log calls change
  none of these and are left out.
\<close>

definition projectActive :: string where
  "projectActive = ''Active''"

definition projectInactive :: string where
  "projectInactive = ''Inactive''"

text \<open>
  The copy loops of lines 58-62 and 174-177: a fresh map, filled entry by entry.
\<close>

definition copyLabels :: "go_map \<Rightarrow> go_map" where
  "copyLabels att = fold (\<lambda>(key, val) m. AList.update key val m) att []"

subsection \<open>Read (lines 101-158)\<close>

definition readAttempt ::
  "provider \<Rightarrow> ResourceData \<times> remote \<Rightarrow> RetryError option \<times> (ResourceData \<times> remote)" where
  "readAttempt k = (\<lambda>(d, w).
     (case call_GetProject k (d_Id d) w of
        (Inl err, w') \<Rightarrow>
          (case err of
             NetError tmo tmp msg \<Rightarrow>
               if tmo \<or> tmp
                 then (Some (RetryableError
                         (Errorf ''network issue occured while trying to read project '%s': %s''
                            [S (d_Id d), S msg])), (d, w'))
               else (Some (NonRetryableError err), (d, w'))
           | GetProjectConflict \<Rightarrow> (Some (NonRetryableError err), (d, w'))
           | GetProjectUnauthorized \<Rightarrow> (Some (NonRetryableError err), (d, w'))
           | GetProjectDefault code \<Rightarrow>
               if code = 403 \<or> code = 404 then (None, (d\<lparr>d_Id := []\<rparr>, w'))
               else (Some (NonRetryableError err), (d, w'))
           | _ \<Rightarrow> (Some (NonRetryableError err), (d, w')))
      | (Inr r, w') \<Rightarrow>
          (case Set_attr d ''name'' (\<lambda>d. d\<lparr>name := Name r\<rparr>) of
             (Some e, d1) \<Rightarrow> (Some (NonRetryableError e), (d1, w'))
           | (None, d1) \<Rightarrow>
          (case Set_attr d1 ''labels''
                  (\<lambda>d. d\<lparr>labels := (case Labels r of None \<Rightarrow> [] | Some l \<Rightarrow> l)\<rparr>) of
             (Some e, d2) \<Rightarrow> (Some (NonRetryableError e), (d2, w'))
           | (None, d2) \<Rightarrow>
          (case Set_attr d2 ''status'' (\<lambda>d. d\<lparr>status := Status r\<rparr>) of
             (Some e, d3) \<Rightarrow> (Some (NonRetryableError e), (d3, w'))
           | (None, d3) \<Rightarrow>
          (case Set_attr d3 ''creation_timestamp''
                  (\<lambda>d. d\<lparr>creation_timestamp := CreationTimestamp r\<rparr>) of
             (Some e, d4) \<Rightarrow> (Some (NonRetryableError e), (d4, w'))
           | (None, d4) \<Rightarrow>
          (case Set_attr d4 ''deletion_timestamp''
                  (\<lambda>d. d\<lparr>deletion_timestamp := DeletionTimestamp r\<rparr>) of
             (Some e, d5) \<Rightarrow> (Some (NonRetryableError e), (d5, w'))
           | (None, d5) \<Rightarrow> (None, (d5, w')))))))))"

definition resourceProjectRead ::
  "provider \<Rightarrow> ResourceData \<Rightarrow> remote \<Rightarrow> go_error option \<times> ResourceData \<times> remote" where
  "resourceProjectRead k d w =
     (case Retry (TimeoutRead d) (readAttempt k) (d, w) of
        (err, (d', w')) \<Rightarrow> (err, d', w'))"

subsection \<open>Create (lines 52-99)\<close>

definition createBody :: "ResourceData \<Rightarrow> CreateProjectBody" where
  "createBody d =
     \<lparr>body_Name = name d,
      body_Labels = (if labels d \<noteq> [] then Some (copyLabels (labels d)) else None)\<rparr>"

definition createRefresh ::
  "provider \<Rightarrow> string \<Rightarrow> remote \<Rightarrow> (Project option \<times> string \<times> go_error option) \<times> remote" where
  "createRefresh k i w =
     (case call_GetProject k i w of
        (Inl err, w') \<Rightarrow> ((None, [], Some err), w')
      | (Inr r, w') \<Rightarrow> ((Some r, Status r, None), w'))"

definition createStateConf :: "ResourceData \<Rightarrow> StateChangeConf" where
  "createStateConf d =
     \<lparr>Pending = [projectInactive], Target = [projectActive], Timeout = TimeoutCreate d\<rparr>"

definition resourceProjectCreate ::
  "provider \<Rightarrow> ResourceData \<Rightarrow> remote \<Rightarrow> go_error option \<times> ResourceData \<times> remote" where
  "resourceProjectCreate k d w =
     (case call_CreateProject k (createBody d) w of
        (Inl err, w1) \<Rightarrow> (Some (Errorf ''error when creating a project: %s'' [E err]), d, w1)
      | (Inr r, w1) \<Rightarrow>
          (case WaitForState (createStateConf d) (createRefresh k (ID r)) w1 of
             ((res, Some err), w2) \<Rightarrow>
               (Some (Errorf ''error while waiting for project '%s' to be created: %s''
                        [S (ID r), E err]), d, w2)
           | ((res, None), w2) \<Rightarrow> resourceProjectRead k (d\<lparr>d_Id := ID r\<rparr>) w2))"

subsection \<open>Update (lines 160-189)\<close>

definition updateBody :: "ResourceData \<Rightarrow> Project" where
  "updateBody d =
     (let b = \<lparr>ID = [], Name = name d, Labels = None, Status = [],
               CreationTimestamp = zeroDateTime, DeletionTimestamp = zeroDateTime\<rparr>;
          b = (if HasChange d ''name'' then b\<lparr>Name := name d\<rparr> else b)
      in if HasChange d ''labels'' then b\<lparr>Labels := Some (copyLabels (labels d))\<rparr> else b)"

definition resourceProjectUpdate ::
  "provider \<Rightarrow> ResourceData \<Rightarrow> remote \<Rightarrow> go_error option \<times> ResourceData \<times> remote" where
  "resourceProjectUpdate k d w =
     (case call_UpdateProject k (d_Id d) (updateBody d) w of
        (Some err, w1) \<Rightarrow>
          (Some (Errorf ''unable to update project '%s': %v'' [S (d_Id d), E err]), d, w1)
      | (None, w1) \<Rightarrow> resourceProjectRead k d w1)"

subsection \<open>Delete (lines 191-221)\<close>

definition deleteAttempt ::
  "provider \<Rightarrow> ResourceData \<Rightarrow> remote \<Rightarrow> RetryError option \<times> remote" where
  "deleteAttempt k d w =
     (case call_GetProject k (d_Id d) w of
        (Inl err, w') \<Rightarrow>
          (case err of
             GetProjectDefault code \<Rightarrow>
               if code = 403 \<or> code = 404 then (None, w')
               else (Some (NonRetryableError err), w')
           | _ \<Rightarrow> (Some (NonRetryableError err), w'))
      | (Inr r, w') \<Rightarrow>
          (Some (RetryableError
                   (Errorf ''project '%s' still exists, currently in '%s' state''
                      [S (d_Id d), S (Status r)])), w'))"

definition resourceProjectDelete ::
  "provider \<Rightarrow> ResourceData \<Rightarrow> remote \<Rightarrow> go_error option \<times> ResourceData \<times> remote" where
  "resourceProjectDelete k d w =
     (case call_DeleteProject k (d_Id d) w of
        (Some err, w1) \<Rightarrow>
          (Some (Errorf ''unable to delete project '%s': %s'' [S (d_Id d), E err]), d, w1)
      | (None, w1) \<Rightarrow>
          (case Retry (TimeoutDelete d) (deleteAttempt k d) w1 of
             (err, w2) \<Rightarrow> (err, d, w2)))"

section \<open>Vocabulary of the statements\<close>

text \<open>
  \<open>retryLoop\<close> is \<open>Retry\<close> written as one recursion: the attempts left, the
  error kept from the last attempt, the state.
\<close>

fun retryLoop ::
  "nat \<Rightarrow> ('s \<Rightarrow> RetryError option \<times> 's) \<Rightarrow> go_error option \<Rightarrow> 's \<Rightarrow> go_error option \<times> 's" where
  "retryLoop 0 f resultErr s =
     (case resultErr of
        None \<Rightarrow> (Some (TimeoutError [] [''success'']), s)
      | Some e \<Rightarrow> (Some e, s))"
| "retryLoop (Suc n) f resultErr s =
     (case f s of
        (None, s') \<Rightarrow> (None, s')
      | (Some rerr, s') \<Rightarrow>
          if Retryable rerr then retryLoop n f (Some (Err rerr)) s'
          else (Some (Err rerr), s'))"

text \<open>The remote state after \<open>j\<close> more \<open>GetProject\<close> calls for identity \<open>i\<close>.\<close>

definition polled :: "nat \<Rightarrow> string \<Rightarrow> remote \<Rightarrow> remote" where
  "polled j i w = w\<lparr>gets := gets w + j, sent := sent w @ replicate j (GetReq i)\<rparr>"

text \<open>
  What the \<open>n\<close>-th next \<open>GetProject\<close> call for identity \<open>i\<close> answers: a
  transient network error, a forbidden or not-found status, a project, an inactive
  project.
\<close>

definition transientAt :: "provider \<Rightarrow> string \<Rightarrow> remote \<Rightarrow> nat \<Rightarrow> bool" where
  "transientAt k i w n =
     (case GetProject k (gets w + n) i of
        Inl (NetError tmo tmp msg) \<Rightarrow> tmo \<or> tmp
      | _ \<Rightarrow> False)"

definition absentAt :: "provider \<Rightarrow> string \<Rightarrow> remote \<Rightarrow> nat \<Rightarrow> bool" where
  "absentAt k i w n =
     (GetProject k (gets w + n) i = Inl (GetProjectDefault 403) \<or>
      GetProject k (gets w + n) i = Inl (GetProjectDefault 404))"

definition foundAt :: "provider \<Rightarrow> string \<Rightarrow> remote \<Rightarrow> nat \<Rightarrow> bool" where
  "foundAt k i w n = (case GetProject k (gets w + n) i of Inr r \<Rightarrow> True | Inl e \<Rightarrow> False)"

definition inactiveAt :: "provider \<Rightarrow> string \<Rightarrow> remote \<Rightarrow> nat \<Rightarrow> bool" where
  "inactiveAt k i w n =
     (case GetProject k (gets w + n) i of
        Inr r \<Rightarrow> Status r = projectInactive
      | Inl e \<Rightarrow> False)"

definition activeAt :: "provider \<Rightarrow> string \<Rightarrow> remote \<Rightarrow> nat \<Rightarrow> bool" where
  "activeAt k i w n =
     (case GetProject k (gets w + n) i of
        Inr r \<Rightarrow> Status r = projectActive
      | Inl e \<Rightarrow> False)"

text \<open>
  A client that answers not found wherever \<open>k\<close> answers forbidden, and is
  \<open>k\<close> otherwise.
\<close>

definition asNotFound :: "go_error \<Rightarrow> go_error" where
  "asNotFound e =
     (case e of
        GetProjectDefault c \<Rightarrow> if c = 403 then GetProjectDefault 404 else e
      | _ \<Rightarrow> e)"

definition forbiddenAsNotFound :: "provider \<Rightarrow> provider" where
  "forbiddenAsNotFound k =
     k\<lparr>GetProject := (\<lambda>n i. case GetProject k n i of
                                Inl e \<Rightarrow> Inl (asNotFound e)
                              | Inr r \<Rightarrow> Inr r)\<rparr>"

text \<open>The local state after all five attributes were copied from a project.\<close>

definition populate :: "ResourceData \<Rightarrow> Project \<Rightarrow> ResourceData" where
  "populate d r =
     d\<lparr>name := Name r,
       labels := (case Labels r of None \<Rightarrow> [] | Some l \<Rightarrow> l),
       status := Status r,
       creation_timestamp := CreationTimestamp r,
       deletion_timestamp := DeletionTimestamp r\<rparr>"

section \<open>Example inputs\<close>

text \<open>
  A project \<open>p-1\<close> named \<open>team-a\<close> with label \<open>env=prod\<close>, the local state
  that manages it, and a client whose \<open>n\<close>-th \<open>GetProject\<close> call answers
  \<open>g n\<close> while every other call succeeds.
\<close>

definition ex_project :: "string \<Rightarrow> Project" where
  "ex_project st =
     \<lparr>ID = ''p-1'', Name = ''team-a'', Labels = Some [(''env'', ''prod'')], Status = st,
      CreationTimestamp = ''2020-05-01T10:00:00.000Z'',
      DeletionTimestamp = zeroDateTime\<rparr>"

definition ex_data :: ResourceData where
  "ex_data =
     \<lparr>d_Id = ''p-1'', name = ''team-a'', labels = [(''env'', ''prod'')], status = ''Active'',
      creation_timestamp = ''2020-05-01T10:00:00.000Z'',
      deletion_timestamp = zeroDateTime,
      old_name = ''team-a'', old_labels = [(''env'', ''prod'')],
      TimeoutCreate = 3, TimeoutRead = 3, TimeoutDelete = 3,
      SetFails = (\<lambda>key. None)\<rparr>"

definition ex_provider :: "(nat \<Rightarrow> go_error + Project) \<Rightarrow> provider" where
  "ex_provider g =
     \<lparr>CreateProject = (\<lambda>b. Inr (ex_project ''Inactive'')),
      GetProject = (\<lambda>n i. g n),
      UpdateProject = (\<lambda>i b. None),
      DeleteProject = (\<lambda>i. None)\<rparr>"

definition ex_remote :: remote where
  "ex_remote = \<lparr>gets = 0, sent = []\<rparr>"

text \<open>Probe answers: Inactive twice and then Active; Inactive for ever.\<close>

definition ex_becomes_active :: "nat \<Rightarrow> go_error + Project" where
  "ex_becomes_active n = (if n < 2 then Inr (ex_project projectInactive) else Inr (ex_project projectActive))"

definition ex_stays_inactive :: "nat \<Rightarrow> go_error + Project" where
  "ex_stays_inactive n = Inr (ex_project projectInactive)"


definition ex_stays_found :: "nat \<Rightarrow> go_error + Project" where
  "ex_stays_found n = Inr (ex_project projectActive)"

text \<open>
  Probe answers that start with one network timeout, followed by not found or by an
  active project; a network timeout for ever; forbidden, not found and unauthorized
  for ever.
\<close>

definition ex_transient_then_gone :: "nat \<Rightarrow> go_error + Project" where
  "ex_transient_then_gone n =
     (if n = 0 then Inl (NetError True False ''i/o timeout'') else Inl (GetProjectDefault 404))"

definition ex_transient_then_found :: "nat \<Rightarrow> go_error + Project" where
  "ex_transient_then_found n =
     (if n = 0 then Inl (NetError True False ''i/o timeout'')
      else Inr (ex_project projectActive))"

definition ex_stays_transient :: "nat \<Rightarrow> go_error + Project" where
  "ex_stays_transient n = Inl (NetError True False ''i/o timeout'')"

definition ex_forbidden :: "nat \<Rightarrow> go_error + Project" where
  "ex_forbidden n = Inl (GetProjectDefault 403)"

definition ex_gone :: "nat \<Rightarrow> go_error + Project" where
  "ex_gone n = Inl (GetProjectDefault 404)"

definition ex_unauthorized :: "nat \<Rightarrow> go_error + Project" where
  "ex_unauthorized n = Inl GetProjectUnauthorized"

text \<open>
  A local state whose labels changed from \<open>a=1\<close> to \<open>a=1, b=2\<close> while the
  name did not; a local state with no identity yet; clients whose update, create or
  delete call is rejected.
\<close>

definition ex_update :: ResourceData where
  "ex_update =
     ex_data\<lparr>labels := [(''a'', ''1''), (''b'', ''2'')], old_labels := [(''a'', ''1'')]\<rparr>"

definition ex_update_rejected :: provider where
  "ex_update_rejected =
     (ex_provider ex_stays_found)\<lparr>UpdateProject := (\<lambda>i b. Some (OtherError ''404 not found''))\<rparr>"

definition ex_create_rejected :: provider where
  "ex_create_rejected =
     (ex_provider ex_stays_found)\<lparr>CreateProject := (\<lambda>b. Inl (OtherError ''quota exceeded''))\<rparr>"

definition ex_delete_rejected :: provider where
  "ex_delete_rejected =
     (ex_provider ex_stays_found)\<lparr>DeleteProject := (\<lambda>i. Some (OtherError ''conflict''))\<rparr>"

definition ex_new :: ResourceData where
  "ex_new = ex_data\<lparr>d_Id := []\<rparr>"

section \<open>Unfolding on the examples\<close>

lemmas ex_defs = ex_provider_def ex_data_def ex_remote_def ex_project_def
  ex_transient_then_gone_def ex_transient_then_found_def projectActive_def projectInactive_def

lemmas run_defs = Retry_def WaitForState_def retryRefresh_def NonRetryableError_def
  RetryableError_def call_GetProject_def call_DeleteProject_def call_CreateProject_def
  call_UpdateProject_def createStateConf_def createRefresh_def createBody_def copyLabels_def
  numeral_3_eq_3

section \<open>The retry loop\<close>

lemma refreshLoop_retry:
  "(r = None \<longrightarrow> ls = []) \<Longrightarrow>
   (case refreshLoop n \<lparr>Pending = [''retryableerror''], Target = [''success''], Timeout = t\<rparr>
           (retryRefresh f) 0 ls (s, r) of
      ((res, waitErr), (s', resultErr)) \<Rightarrow>
        (case resultErr of None \<Rightarrow> (waitErr, s') | Some e \<Rightarrow> (Some e, s')))
   = retryLoop n f r s"
proof (induction n arbitrary: ls s r)
  case 0
  then show ?case by (cases r) auto
next
  case (Suc n)
  show ?case
  proof (cases "f s")
    case (Pair a s')
    show ?thesis
    proof (cases a)
      case None
      with Pair show ?thesis by (simp add: retryRefresh_def)
    next
      case (Some rerr)
      show ?thesis
      proof (cases "Retryable rerr")
        case True
        have "(case refreshLoop n
                 \<lparr>Pending = [''retryableerror''], Target = [''success''], Timeout = t\<rparr>
                 (retryRefresh f) 0 ''retryableerror'' (s', Some (Err rerr)) of
          ((res, waitErr), (s', resultErr)) \<Rightarrow>
             (case resultErr of None \<Rightarrow> (waitErr, s') | Some e \<Rightarrow> (Some e, s')))
           = retryLoop n f (Some (Err rerr)) s'"
          by (rule Suc.IH) simp
        with Pair Some True show ?thesis by (simp add: retryRefresh_def)
      next
        case False
        with Pair Some show ?thesis by (simp add: retryRefresh_def)
      qed
    qed
  qed
qed

lemma Retry_retryLoop: "Retry n f s = retryLoop n f None s"
  unfolding Retry_def WaitForState_def
  using refreshLoop_retry [of None "[]" n n f s] by simp

lemma polled_0: "polled 0 i w = w"
  by (simp add: polled_def)

lemma polled_Suc: "polled j i (polled (Suc 0) i w) = polled (Suc j) i w"
  by (simp add: polled_def replicate_app_Cons_same)

lemma polled_Suc2: "polled (Suc 0) i (polled j i w) = polled (Suc j) i w"
  by (simp add: polled_def replicate_append_same)

lemma gets_polled: "gets (polled j i w) = gets w + j"
  by (simp add: polled_def)

lemma call_GetProject_polled:
  "call_GetProject k i w = (GetProject k (gets w) i, polled (Suc 0) i w)"
  by (simp add: call_GetProject_def polled_def)

section \<open>Read\<close>

lemma readAttempt_transient:
  assumes "GetProject k (gets w) (d_Id d) = Inl (NetError tmo tmp msg)" and "tmo \<or> tmp"
  shows "readAttempt k (d, w) =
           (Some (RetryableError
                    (Errorf ''network issue occured while trying to read project '%s': %s''
                       [S (d_Id d), S msg])), (d, polled (Suc 0) (d_Id d) w))"
  using assms by (simp add: readAttempt_def call_GetProject_polled)

lemma readAttempt_absent:
  assumes "GetProject k (gets w) (d_Id d) = Inl (GetProjectDefault c)" and "c = 403 \<or> c = 404"
  shows "readAttempt k (d, w) = (None, (d\<lparr>d_Id := []\<rparr>, polled (Suc 0) (d_Id d) w))"
  using assms by (simp add: readAttempt_def call_GetProject_polled)

lemma readAttempt_found:
  assumes "GetProject k (gets w) (d_Id d) = Inr r" and "\<And>key. SetFails d key = None"
  shows "readAttempt k (d, w) = (None, (populate d r, polled (Suc 0) (d_Id d) w))"
  using assms by (simp add: readAttempt_def call_GetProject_polled Set_attr_def populate_def)

lemma transientAt_0:
  assumes "transientAt k i w 0"
  obtains tmo tmp msg where "GetProject k (gets w) i = Inl (NetError tmo tmp msg)" and "tmo \<or> tmp"
  using assms unfolding transientAt_def
  by (auto split: sum.splits go_error.splits)

lemma transientAt_polled: "transientAt k i (polled j i' w) n = transientAt k i w (j + n)"
  by (simp add: transientAt_def polled_def add.assoc)

lemma read_skip:
  assumes "\<forall>i<j. transientAt k (d_Id d) w i"
  shows "\<exists>r'. (j = 0 \<longrightarrow> r' = r) \<and>
           (0 < j \<longrightarrow> (\<exists>tmo tmp msg.
              GetProject k (gets w + (j - 1)) (d_Id d) = Inl (NetError tmo tmp msg) \<and>
              r' = Some (Errorf ''network issue occured while trying to read project '%s': %s''
                           [S (d_Id d), S msg]))) \<and>
           retryLoop (j + m) (readAttempt k) r (d, w) =
           retryLoop m (readAttempt k) r' (d, polled j (d_Id d) w)"
  using assms
proof (induction j arbitrary: w r)
  case 0
  then show ?case by (simp add: polled_0)
next
  case (Suc j)
  from Suc.prems have "transientAt k (d_Id d) w 0" by blast
  then obtain tmo tmp msg
    where g: "GetProject k (gets w) (d_Id d) = Inl (NetError tmo tmp msg)" and t: "tmo \<or> tmp"
    by (rule transientAt_0)
  let ?f = "''network issue occured while trying to read project '%s': %s''"
  let ?e = "Errorf ?f [S (d_Id d), S msg]"
  let ?w = "polled (Suc 0) (d_Id d) w"
  have step: "retryLoop (Suc j + m) (readAttempt k) r (d, w) =
              retryLoop (j + m) (readAttempt k) (Some ?e) (d, ?w)"
    using readAttempt_transient [OF g t] by (simp add: RetryableError_def)
  have "\<forall>i<j. transientAt k (d_Id d) ?w i"
    using Suc.prems by (simp add: transientAt_polled)
  from Suc.IH [OF this, of "Some ?e"]
  obtain r' where r0: "j = 0 \<longrightarrow> r' = Some ?e"
    and r1: "0 < j \<longrightarrow> (\<exists>tmo tmp msg.
              GetProject k (gets ?w + (j - 1)) (d_Id d) = Inl (NetError tmo tmp msg) \<and>
              r' = Some (Errorf ?f [S (d_Id d), S msg]))"
    and r2: "retryLoop (j + m) (readAttempt k) (Some ?e) (d, ?w) =
     retryLoop m (readAttempt k) r' (d, polled j (d_Id d) ?w)"
    by blast
  have "\<exists>tmo tmp msg.
          GetProject k (gets w + (Suc j - 1)) (d_Id d) = Inl (NetError tmo tmp msg) \<and>
          r' = Some (Errorf ?f [S (d_Id d), S msg])"
  proof (cases j)
    case 0
    with r0 g show ?thesis by simp
  next
    case (Suc j')
    with r1 show ?thesis by (simp add: gets_polled)
  qed
  then have last: "0 < Suc j \<longrightarrow> (\<exists>tmo tmp msg.
          GetProject k (gets w + (Suc j - 1)) (d_Id d) = Inl (NetError tmo tmp msg) \<and>
          r' = Some (Errorf ?f [S (d_Id d), S msg]))"
    by blast
  have first: "Suc j = 0 \<longrightarrow> r' = r"
    by simp
  have "retryLoop (Suc j + m) (readAttempt k) r (d, w) =
        retryLoop m (readAttempt k) r' (d, polled (Suc j) (d_Id d) w)"
    using step r2 by (simp only: polled_Suc)
  with first last show ?case
    by (intro exI [of _ r'] conjI)
qed

lemma read_after_transients:
  assumes "\<forall>i<j. transientAt k (d_Id d) w i" and "j < TimeoutRead d"
    and "readAttempt k (d, polled j (d_Id d) w) = (None, (d', w'))"
  shows "resourceProjectRead k d w = (None, d', w')"
proof -
  obtain m where m: "TimeoutRead d = j + Suc m"
    using less_imp_Suc_add [OF assms(2)] by auto
  from read_skip [OF assms(1), of None "Suc m"]
  obtain r' where r': "retryLoop (j + Suc m) (readAttempt k) None (d, w) =
     retryLoop (Suc m) (readAttempt k) r' (d, polled j (d_Id d) w)"
    by blast
  have "retryLoop (Suc m) (readAttempt k) r' (d, polled j (d_Id d) w) = (None, (d', w'))"
    by (simp add: assms(3))
  then have "Retry (TimeoutRead d) (readAttempt k) (d, w) = (None, (d', w'))"
    unfolding Retry_retryLoop m r' .
  then show ?thesis
    by (simp add: resourceProjectRead_def)
qed

lemma read_absent_after_transients:
  assumes "\<forall>i<j. transientAt k (d_Id d) w i" and "j < TimeoutRead d"
    and "absentAt k (d_Id d) w j"
  shows "resourceProjectRead k d w = (None, d\<lparr>d_Id := []\<rparr>, polled (Suc j) (d_Id d) w)"
proof -
  from assms(3) obtain c where
    c: "GetProject k (gets (polled j (d_Id d) w)) (d_Id d) = Inl (GetProjectDefault c)"
      and c': "c = 403 \<or> c = 404"
    unfolding absentAt_def gets_polled by blast
  show ?thesis
    using read_after_transients [OF assms(1,2)] readAttempt_absent [OF c c']
    by (simp add: polled_Suc2)
qed

section \<open>Delete\<close>




lemma foundAt_polled: "foundAt k i (polled j i' w) n = foundAt k i w (j + n)"
  by (simp add: foundAt_def polled_def add.assoc)


section \<open>Create\<close>

lemma inactive_not_active: "projectInactive \<noteq> projectActive"
  by (simp add: projectInactive_def projectActive_def)

lemma createRefresh_found:
  assumes "GetProject k (gets w) i = Inr p"
  shows "createRefresh k i w = ((Some p, Status p, None), polled (Suc 0) i w)"
  using assms by (simp add: createRefresh_def call_GetProject_polled)

lemma createRefresh_error:
  assumes "GetProject k (gets w) i = Inl e"
  shows "createRefresh k i w = ((None, [], Some e), polled (Suc 0) i w)"
  using assms by (simp add: createRefresh_def call_GetProject_polled)

lemma inactiveAt_0:
  assumes "inactiveAt k i w 0"
  obtains p where "GetProject k (gets w) i = Inr p" and "Status p = projectInactive"
  using assms unfolding inactiveAt_def by (auto split: sum.splits)

lemma activeAt_0:
  assumes "activeAt k i w 0"
  obtains p where "GetProject k (gets w) i = Inr p" and "Status p = projectActive"
  using assms unfolding activeAt_def by (auto split: sum.splits)

lemma inactiveAt_polled: "inactiveAt k i (polled j i' w) n = inactiveAt k i w (j + n)"
  by (simp add: inactiveAt_def polled_def add.assoc)

lemma activeAt_polled: "activeAt k i (polled j i' w) n = activeAt k i w (j + n)"
  by (simp add: activeAt_def polled_def add.assoc)

lemma create_step_inactive:
  assumes "inactiveAt k i w 0"
  shows "refreshLoop (Suc n) (createStateConf d) (createRefresh k i) tick ls w =
         refreshLoop n (createStateConf d) (createRefresh k i) 0 projectInactive
           (polled (Suc 0) i w)"
proof -
  from assms obtain p where "GetProject k (gets w) i = Inr p" and "Status p = projectInactive"
    by (rule inactiveAt_0)
  then show ?thesis
    by (simp add: createRefresh_found createStateConf_def inactive_not_active)
qed

lemma create_step_active:
  assumes "activeAt k i w 0"
  shows "\<exists>p. refreshLoop (Suc n) (createStateConf d) (createRefresh k i) tick ls w =
           ((Some p, None), polled (Suc 0) i w)"
proof -
  from assms obtain p where "GetProject k (gets w) i = Inr p" and "Status p = projectActive"
    by (rule activeAt_0)
  then show ?thesis
    by (simp add: createRefresh_found createStateConf_def)
qed

lemma create_skip:
  assumes "\<forall>n<j. inactiveAt k i w n"
  shows "refreshLoop (j + m) (createStateConf d) (createRefresh k i) tick ls w =
         refreshLoop m (createStateConf d) (createRefresh k i)
           (if j = 0 then tick else 0) (if j = 0 then ls else projectInactive) (polled j i w)"
  using assms
proof (induction j arbitrary: w tick ls)
  case 0
  then show ?case by (simp add: polled_0)
next
  case (Suc j)
  from Suc.prems have "inactiveAt k i w 0" by blast
  then have step: "refreshLoop (Suc (j + m)) (createStateConf d) (createRefresh k i) tick ls w =
         refreshLoop (j + m) (createStateConf d) (createRefresh k i) 0 projectInactive
           (polled (Suc 0) i w)"
    by (rule create_step_inactive)
  have "\<forall>n<j. inactiveAt k i (polled (Suc 0) i w) n"
    using Suc.prems by (simp add: inactiveAt_polled)
  from Suc.IH [OF this, of 0 projectInactive] step
  show ?case by (simp only: polled_Suc add_Suc if_cancel nat.simps if_False)
qed

lemma inactiveAt_sent: "inactiveAt k i (w\<lparr>sent := x\<rparr>) n = inactiveAt k i w n"
  by (simp add: inactiveAt_def)

lemma activeAt_sent: "activeAt k i (w\<lparr>sent := x\<rparr>) n = activeAt k i w n"
  by (simp add: activeAt_def)

lemma Timeout_createStateConf: "Timeout (createStateConf d) = TimeoutCreate d"
  by (simp add: createStateConf_def)

lemma create_wait_converges:
  assumes "\<forall>n<j. inactiveAt k i w n" and "j < TimeoutCreate d" and "activeAt k i w j"
  shows "\<exists>p. WaitForState (createStateConf d) (createRefresh k i) w =
           ((Some p, None), polled (Suc j) i w)"
proof -
  let ?tick = "if j = 0 then 0 else 0 :: nat"
  let ?ls = "if j = 0 then [] else projectInactive"
  obtain m where m: "TimeoutCreate d = j + Suc m"
    using less_imp_Suc_add [OF assms(2)] by auto
  have "activeAt k i (polled j i w) 0"
    using assms(3) by (simp add: activeAt_polled)
  from create_step_active [OF this, of m d ?tick ?ls]
  obtain p where p: "refreshLoop (Suc m) (createStateConf d) (createRefresh k i) ?tick ?ls
      (polled j i w) = ((Some p, None), polled (Suc 0) i (polled j i w))" ..
  have "WaitForState (createStateConf d) (createRefresh k i) w =
        refreshLoop (j + Suc m) (createStateConf d) (createRefresh k i) 0 [] w"
    unfolding WaitForState_def Timeout_createStateConf m ..
  also have "\<dots> = refreshLoop (Suc m) (createStateConf d) (createRefresh k i) ?tick ?ls
      (polled j i w)"
    by (rule create_skip [OF assms(1)])
  also have "\<dots> = ((Some p, None), polled (Suc j) i w)"
    unfolding p polled_Suc2 ..
  finally show ?thesis ..
qed

lemma create_wait_times_out:
  assumes "\<forall>n<TimeoutCreate d. inactiveAt k i w n"
  shows "WaitForState (createStateConf d) (createRefresh k i) w =
           ((None, Some (TimeoutError (if TimeoutCreate d = 0 then [] else projectInactive)
                           [projectActive])),
            polled (TimeoutCreate d) i w)"
proof -
  have "WaitForState (createStateConf d) (createRefresh k i) w =
        refreshLoop (TimeoutCreate d + 0) (createStateConf d) (createRefresh k i) 0 [] w"
    unfolding WaitForState_def Timeout_createStateConf by simp
  also have "\<dots> = refreshLoop 0 (createStateConf d) (createRefresh k i)
      (if TimeoutCreate d = 0 then 0 else 0)
      (if TimeoutCreate d = 0 then [] else projectInactive) (polled (TimeoutCreate d) i w)"
    by (rule create_skip [OF assms])
  also have "\<dots> = ((None, Some (TimeoutError
      (if TimeoutCreate d = 0 then [] else projectInactive) [projectActive])),
      polled (TimeoutCreate d) i w)"
    by (simp add: createStateConf_def)
  finally show ?thesis .
qed

text \<open>
  C5. When the remote create call succeeds and the probe answers Inactive \<open>j\<close> times
  and then Active, within the timeout, Create's wait ends after exactly \<open>j + 1\<close>
  probes, the assigned identity is stored and the result is that of Read on it. When
  every probe within the timeout answers Inactive, Create fails with the wait's timeout
  error, which holds the last state seen, and the local state is unchanged.
\<close>

theorem create_poll_converges_or_times_out:
  assumes "CreateProject k (createBody d) = Inr r"
  shows "((\<forall>n<j. inactiveAt k (ID r) w n) \<and> j < TimeoutCreate d \<and> activeAt k (ID r) w j \<longrightarrow>
            resourceProjectCreate k d w =
              resourceProjectRead k (d\<lparr>d_Id := ID r\<rparr>)
                (polled (Suc j) (ID r) (w\<lparr>sent := sent w @ [CreateReq (createBody d)]\<rparr>)))
       \<and> ((\<forall>n<TimeoutCreate d. inactiveAt k (ID r) w n) \<longrightarrow>
            resourceProjectCreate k d w =
              (Some (Errorf ''error while waiting for project '%s' to be created: %s''
                       [S (ID r),
                        E (TimeoutError (if TimeoutCreate d = 0 then [] else projectInactive)
                             [projectActive])]),
               d,
               polled (TimeoutCreate d) (ID r)
                 (w\<lparr>sent := sent w @ [CreateReq (createBody d)]\<rparr>)))"
proof (intro conjI impI)
  let ?w = "w\<lparr>sent := sent w @ [CreateReq (createBody d)]\<rparr>"
  assume "(\<forall>n<j. inactiveAt k (ID r) w n) \<and> j < TimeoutCreate d \<and> activeAt k (ID r) w j"
  then have "\<forall>n<j. inactiveAt k (ID r) ?w n" and "j < TimeoutCreate d"
    and "activeAt k (ID r) ?w j"
    by (simp_all add: inactiveAt_sent activeAt_sent)
  from create_wait_converges [OF this]
  obtain p where "WaitForState (createStateConf d) (createRefresh k (ID r)) ?w =
           ((Some p, None), polled (Suc j) (ID r) ?w)" ..
  with assms show "resourceProjectCreate k d w =
      resourceProjectRead k (d\<lparr>d_Id := ID r\<rparr>) (polled (Suc j) (ID r) ?w)"
    by (simp add: resourceProjectCreate_def call_CreateProject_def)
next
  let ?w = "w\<lparr>sent := sent w @ [CreateReq (createBody d)]\<rparr>"
  assume "\<forall>n<TimeoutCreate d. inactiveAt k (ID r) w n"
  then have "\<forall>n<TimeoutCreate d. inactiveAt k (ID r) ?w n"
    by (simp add: inactiveAt_sent)
  from create_wait_times_out [OF this] assms
  show "resourceProjectCreate k d w =
      (Some (Errorf ''error while waiting for project '%s' to be created: %s''
               [S (ID r),
                E (TimeoutError (if TimeoutCreate d = 0 then [] else projectInactive)
                     [projectActive])]),
       d, polled (TimeoutCreate d) (ID r) ?w)"
    by (simp add: resourceProjectCreate_def call_CreateProject_def)
qed

theorem create_poll_witness:
  "resourceProjectCreate (ex_provider ex_becomes_active) (ex_data\<lparr>d_Id := []\<rparr>) ex_remote =
     resourceProjectRead (ex_provider ex_becomes_active) (ex_data\<lparr>d_Id := ''p-1''\<rparr>)
       (polled 3 ''p-1'' (ex_remote\<lparr>sent := [CreateReq (createBody (ex_data\<lparr>d_Id := []\<rparr>))]\<rparr>))
   \<and> resourceProjectCreate (ex_provider ex_stays_inactive) (ex_data\<lparr>d_Id := []\<rparr>) ex_remote =
     (Some (Errorf ''error while waiting for project '%s' to be created: %s''
              [S ''p-1'', E (TimeoutError ''Inactive'' [''Active''])]),
      ex_data\<lparr>d_Id := []\<rparr>,
      polled 3 ''p-1'' (ex_remote\<lparr>sent := [CreateReq (createBody (ex_data\<lparr>d_Id := []\<rparr>))]\<rparr>))"
proof -
  let ?d = "ex_data\<lparr>d_Id := []\<rparr>"
  let ?k = "ex_provider ex_becomes_active"
  let ?k' = "ex_provider ex_stays_inactive"
  have c: "CreateProject ?k (createBody ?d) = Inr (ex_project projectInactive)"
    and c': "CreateProject ?k' (createBody ?d) = Inr (ex_project projectInactive)"
    by (simp_all add: ex_provider_def projectInactive_def)
  have h: "(\<forall>n<2. inactiveAt ?k (ID (ex_project projectInactive)) ex_remote n) \<and>
           2 < TimeoutCreate ?d \<and> activeAt ?k (ID (ex_project projectInactive)) ex_remote 2"
    by (simp add: inactiveAt_def activeAt_def ex_provider_def ex_project_def ex_data_def
        ex_remote_def ex_becomes_active_def)
  have h': "\<forall>n<TimeoutCreate ?d. inactiveAt ?k' (ID (ex_project projectInactive)) ex_remote n"
    by (simp add: inactiveAt_def ex_provider_def ex_project_def ex_stays_inactive_def)
  from create_poll_converges_or_times_out [OF c, THEN conjunct1, THEN mp, OF h]
       create_poll_converges_or_times_out [OF c', THEN conjunct2, THEN mp, OF h']
  show ?thesis
    by (simp add: ex_project_def ex_data_def ex_remote_def projectInactive_def projectActive_def
        numeral_3_eq_3 numeral_2_eq_2)
qed

section \<open>Delete: convergence and timeout\<close>


lemma absentAt_sent: "absentAt k i (w\<lparr>sent := x\<rparr>) n = absentAt k i w n"
  by (simp add: absentAt_def)







section \<open>Read: transient errors, absence and the frame\<close>

lemma readAttempt_remote:
  "snd (snd (readAttempt k (d, w))) = polled (Suc 0) (d_Id d) w"
  by (simp add: readAttempt_def call_GetProject_polled Set_attr_def
      split: sum.splits go_error.splits option.splits)

lemma readAttempt_final:
  assumes "\<not> transientAt k (d_Id d) w 0" and "fst (readAttempt k (d, w)) = Some rerr"
  shows "\<not> Retryable rerr"
  using assms
  by (auto simp: readAttempt_def call_GetProject_polled Set_attr_def transientAt_def
      NonRetryableError_def
      split: sum.splits go_error.splits option.splits if_splits)

lemma readAttempt_error:
  assumes "GetProject k (gets w) (d_Id d) = Inl err"
  shows "fst (snd (readAttempt k (d, w))) = d \<or>
         (fst (readAttempt k (d, w)) = None \<and> fst (snd (readAttempt k (d, w))) = d\<lparr>d_Id := []\<rparr>)"
  using assms
  by (simp add: readAttempt_def call_GetProject_polled split: go_error.splits)

lemma read_first_final:
  assumes "\<forall>n<j. transientAt k (d_Id d) w n" and "j < TimeoutRead d"
    and "\<not> transientAt k (d_Id d) w j"
  shows "resourceProjectRead k d w =
           (case readAttempt k (d, polled j (d_Id d) w) of
              (None, (d', w')) \<Rightarrow> (None, d', w')
            | (Some rerr, (d', w')) \<Rightarrow> (Some (Err rerr), d', w'))"
proof -
  let ?s = "(d, polled j (d_Id d) w)"
  obtain m where m: "TimeoutRead d = j + Suc m"
    using less_imp_Suc_add [OF assms(2)] by auto
  from read_skip [OF assms(1), of None "Suc m"]
  obtain r' where r': "retryLoop (j + Suc m) (readAttempt k) None (d, w) =
     retryLoop (Suc m) (readAttempt k) r' ?s"
    by blast
  have nt: "\<not> transientAt k (d_Id d) (polled j (d_Id d) w) 0"
    using assms(3) by (simp add: transientAt_polled)
  obtain x d' w' where a: "readAttempt k ?s = (x, (d', w'))"
    by (metis surj_pair)
  have "retryLoop (Suc m) (readAttempt k) r' ?s =
        (case x of None \<Rightarrow> (None, (d', w')) | Some rerr \<Rightarrow> (Some (Err rerr), (d', w')))"
  proof (cases x)
    case None
    with a show ?thesis by simp
  next
    case (Some rerr)
    with a have "fst (readAttempt k ?s) = Some rerr" by simp
    from readAttempt_final [OF nt this] a Some show ?thesis by simp
  qed
  then have "Retry (TimeoutRead d) (readAttempt k) (d, w) =
        (case x of None \<Rightarrow> (None, (d', w')) | Some rerr \<Rightarrow> (Some (Err rerr), (d', w')))"
    unfolding Retry_retryLoop m r' .
  then show ?thesis
    by (simp add: resourceProjectRead_def a split: option.splits)
qed

lemma read_times_out:
  assumes "\<forall>n<TimeoutRead d. transientAt k (d_Id d) w n" and "0 < TimeoutRead d"
    and "GetProject k (gets w + (TimeoutRead d - 1)) (d_Id d) = Inl (NetError tmo tmp msg)"
  shows "resourceProjectRead k d w =
           (Some (Errorf ''network issue occured while trying to read project '%s': %s''
                    [S (d_Id d), S msg]),
            d, polled (TimeoutRead d) (d_Id d) w)"
proof -
  from read_skip [OF assms(1), of None 0] assms(2)
  obtain r' tmo' tmp' msg'
    where p': "GetProject k (gets w + (TimeoutRead d - 1)) (d_Id d) = Inl (NetError tmo' tmp' msg')"
    and r': "r' = Some (Errorf ''network issue occured while trying to read project '%s': %s''
                    [S (d_Id d), S msg'])"
    and l: "retryLoop (TimeoutRead d + 0) (readAttempt k) None (d, w) =
      retryLoop 0 (readAttempt k) r' (d, polled (TimeoutRead d) (d_Id d) w)"
    by blast
  from p' assms(3) have "msg' = msg" by simp
  with r' l show ?thesis
    by (simp add: resourceProjectRead_def Retry_retryLoop)
qed

lemma d_Id_self: "\<exists>i. (d :: ResourceData) = d\<lparr>d_Id := i\<rparr>"
  by (rule exI [of _ "d_Id d"]) simp

lemma retryLoop_read_frame:
  assumes "\<forall>n<m. \<not> foundAt k (d_Id d) w n"
  shows "\<exists>i. fst (snd (retryLoop m (readAttempt k) r (d, w))) = d\<lparr>d_Id := i\<rparr>"
  using assms
proof (induction m arbitrary: w r)
  case 0
  show ?case by (cases r) (simp_all add: d_Id_self)
next
  case (Suc m)
  from Suc.prems have "\<not> foundAt k (d_Id d) w 0" by blast
  then obtain err where g: "GetProject k (gets w) (d_Id d) = Inl err"
    unfolding foundAt_def by (auto split: sum.splits)
  obtain x d' w' where a: "readAttempt k (d, w) = (x, (d', w'))"
    by (metis surj_pair)
  have w': "w' = polled (Suc 0) (d_Id d) w"
    using readAttempt_remote [of k d w] a by simp
  from readAttempt_error [OF g] a
  have d': "d' = d \<or> (x = None \<and> d' = d\<lparr>d_Id := []\<rparr>)" by simp
  show ?case
  proof (cases x)
    case None
    with a d' show ?thesis by (auto simp: d_Id_self)
  next
    case (Some rerr)
    with d' have dd: "d' = d" by simp
    show ?thesis
    proof (cases "Retryable rerr")
      case True
      have "\<forall>n<m. \<not> foundAt k (d_Id d) w' n"
        using Suc.prems by (simp add: w' foundAt_polled)
      from Suc.IH [OF this, of "Some (Err rerr)"] a Some True dd
      show ?thesis by simp
    next
      case False
      with a Some dd show ?thesis by (simp add: d_Id_self)
    qed
  qed
qed

text \<open>
  C3. When a probe of Read, the first or one that follows transient network errors
  within the timeout, answers forbidden or not found, Read returns no error and clears
  the stored identity.
\<close>

theorem read_absent_is_success:
  assumes "\<forall>n<j. transientAt k (d_Id d) w n" and "j < TimeoutRead d"
    and "absentAt k (d_Id d) w j"
  shows "fst (resourceProjectRead k d w) = None \<and>
         d_Id (fst (snd (resourceProjectRead k d w))) = []"
  using read_absent_after_transients [OF assms] by simp

theorem read_absent_witness:
  "fst (resourceProjectRead (ex_provider ex_gone) ex_data ex_remote) = None \<and>
   d_Id (fst (snd (resourceProjectRead (ex_provider ex_gone) ex_data ex_remote))) = [] \<and>
   fst (resourceProjectRead (ex_provider ex_forbidden) ex_data ex_remote) = None \<and>
   d_Id (fst (snd (resourceProjectRead (ex_provider ex_forbidden) ex_data ex_remote))) = []"
proof -
  have t: "\<forall>n<0. transientAt (ex_provider ex_gone) (d_Id ex_data) ex_remote n"
    and t': "\<forall>n<0. transientAt (ex_provider ex_forbidden) (d_Id ex_data) ex_remote n"
    and l: "0 < TimeoutRead ex_data"
    by (simp_all add: ex_data_def)
  have a: "absentAt (ex_provider ex_gone) (d_Id ex_data) ex_remote 0"
    and a': "absentAt (ex_provider ex_forbidden) (d_Id ex_data) ex_remote 0"
    by (simp_all add: absentAt_def ex_provider_def ex_gone_def ex_forbidden_def)
  from read_absent_is_success [OF t l a] read_absent_is_success [OF t' l a']
  show ?thesis by simp
qed

text \<open>
  C10. When Read finds the project absent, the local state changes in the stored
  identity only: the name, the labels, the status and the two timestamps keep their
  values. More generally, as long as no probe of a Read finds the project, the local
  state differs from the initial one in the stored identity at most.
\<close>

theorem read_absent_frame:
  "((\<forall>n<j. transientAt k (d_Id d) w n) \<and> j < TimeoutRead d \<and> absentAt k (d_Id d) w j \<longrightarrow>
      fst (snd (resourceProjectRead k d w)) = d\<lparr>d_Id := []\<rparr>)
   \<and> ((\<forall>n<TimeoutRead d. \<not> foundAt k (d_Id d) w n) \<longrightarrow>
      (\<exists>i. fst (snd (resourceProjectRead k d w)) = d\<lparr>d_Id := i\<rparr>))"
proof (intro conjI impI)
  assume "(\<forall>n<j. transientAt k (d_Id d) w n) \<and> j < TimeoutRead d \<and> absentAt k (d_Id d) w j"
  then have "\<forall>n<j. transientAt k (d_Id d) w n" and "j < TimeoutRead d"
    and "absentAt k (d_Id d) w j"
    by simp_all
  from read_absent_after_transients [OF this]
  show "fst (snd (resourceProjectRead k d w)) = d\<lparr>d_Id := []\<rparr>" by simp
next
  assume "\<forall>n<TimeoutRead d. \<not> foundAt k (d_Id d) w n"
  from retryLoop_read_frame [OF this, of None]
  show "\<exists>i. fst (snd (resourceProjectRead k d w)) = d\<lparr>d_Id := i\<rparr>"
    by (simp add: resourceProjectRead_def Retry_retryLoop split: prod.splits)
qed

theorem read_absent_frame_witness:
  "fst (snd (resourceProjectRead (ex_provider ex_transient_then_gone) ex_data ex_remote)) =
     ex_data\<lparr>d_Id := []\<rparr>
   \<and> (\<exists>i. fst (snd (resourceProjectRead (ex_provider ex_unauthorized) ex_data ex_remote)) =
          ex_data\<lparr>d_Id := i\<rparr>)"
proof -
  let ?k = "ex_provider ex_transient_then_gone"
  let ?k' = "ex_provider ex_unauthorized"
  have h: "(\<forall>n<1. transientAt ?k (d_Id ex_data) ex_remote n) \<and> 1 < TimeoutRead ex_data \<and>
           absentAt ?k (d_Id ex_data) ex_remote 1"
    by (simp add: transientAt_def absentAt_def ex_provider_def ex_data_def ex_remote_def
        ex_transient_then_gone_def)
  have h': "\<forall>n<TimeoutRead ex_data. \<not> foundAt ?k' (d_Id ex_data) ex_remote n"
    by (simp add: foundAt_def ex_provider_def ex_unauthorized_def)
  from read_absent_frame [THEN conjunct1, THEN mp, OF h]
       read_absent_frame [THEN conjunct2, THEN mp, OF h']
  show ?thesis by simp
qed

text \<open>
  C1, as the code has it. The retry loop of Read absorbs a network error that is a
  timeout or temporary: after any number of such errors within the timeout, the result
  of Read is the result of the first attempt that meets no such error, so a transient
  error followed by a successful probe leaves no trace in the result; the wrapped
  network error is returned only when every probe within the timeout met one.
\<close>

theorem read_absorbs_transient_errors:
  "((\<forall>n<j. transientAt k (d_Id d) w n) \<and> j < TimeoutRead d \<and> \<not> transientAt k (d_Id d) w j \<longrightarrow>
      resourceProjectRead k d w =
        (case readAttempt k (d, polled j (d_Id d) w) of
           (None, (d', w')) \<Rightarrow> (None, d', w')
         | (Some rerr, (d', w')) \<Rightarrow> (Some (Err rerr), d', w')))
   \<and> ((\<forall>n<j. transientAt k (d_Id d) w n) \<and> j < TimeoutRead d \<and>
       GetProject k (gets w + j) (d_Id d) = Inr r \<and> (\<forall>key. SetFails d key = None) \<longrightarrow>
      resourceProjectRead k d w = (None, populate d r, polled (Suc j) (d_Id d) w))
   \<and> ((\<forall>n<TimeoutRead d. transientAt k (d_Id d) w n) \<and> 0 < TimeoutRead d \<and>
       GetProject k (gets w + (TimeoutRead d - 1)) (d_Id d) = Inl (NetError tmo tmp msg) \<longrightarrow>
      resourceProjectRead k d w =
        (Some (Errorf ''network issue occured while trying to read project '%s': %s''
                 [S (d_Id d), S msg]),
         d, polled (TimeoutRead d) (d_Id d) w))"
proof (intro conjI impI)
  assume a: "(\<forall>n<j. transientAt k (d_Id d) w n) \<and> j < TimeoutRead d \<and>
    \<not> transientAt k (d_Id d) w j"
  show "resourceProjectRead k d w =
        (case readAttempt k (d, polled j (d_Id d) w) of
           (None, (d', w')) \<Rightarrow> (None, d', w')
         | (Some rerr, (d', w')) \<Rightarrow> (Some (Err rerr), d', w'))"
    by (rule read_first_final [OF conjunct1 [OF a] conjunct1 [OF conjunct2 [OF a]]
          conjunct2 [OF conjunct2 [OF a]]])
next
  assume a: "(\<forall>n<j. transientAt k (d_Id d) w n) \<and> j < TimeoutRead d \<and>
       GetProject k (gets w + j) (d_Id d) = Inr r \<and> (\<forall>key. SetFails d key = None)"
  then have g: "GetProject k (gets (polled j (d_Id d) w)) (d_Id d) = Inr r"
    and s: "\<And>key. SetFails d key = None"
    by (simp_all add: gets_polled)
  have "readAttempt k (d, polled j (d_Id d) w) = (None, (populate d r, polled (Suc j) (d_Id d) w))"
    using readAttempt_found [OF g s] by (simp only: polled_Suc2)
  from read_after_transients [OF conjunct1 [OF a] conjunct1 [OF conjunct2 [OF a]] this]
  show "resourceProjectRead k d w = (None, populate d r, polled (Suc j) (d_Id d) w)" .
next
  assume a: "(\<forall>n<TimeoutRead d. transientAt k (d_Id d) w n) \<and> 0 < TimeoutRead d \<and>
       GetProject k (gets w + (TimeoutRead d - 1)) (d_Id d) = Inl (NetError tmo tmp msg)"
  show "resourceProjectRead k d w =
        (Some (Errorf ''network issue occured while trying to read project '%s': %s''
                 [S (d_Id d), S msg]),
         d, polled (TimeoutRead d) (d_Id d) w)"
    by (rule read_times_out [OF conjunct1 [OF a] conjunct1 [OF conjunct2 [OF a]]
          conjunct2 [OF conjunct2 [OF a]]])
qed

theorem read_absorbs_witness:
  "resourceProjectRead (ex_provider ex_transient_then_gone) ex_data ex_remote =
     (None, ex_data\<lparr>d_Id := []\<rparr>, polled 2 ''p-1'' ex_remote)
   \<and> resourceProjectRead (ex_provider ex_transient_then_found) ex_data ex_remote =
     (None, populate ex_data (ex_project projectActive), polled 2 ''p-1'' ex_remote)
   \<and> resourceProjectRead (ex_provider ex_stays_transient) ex_data ex_remote =
     (Some (Errorf ''network issue occured while trying to read project '%s': %s''
              [S ''p-1'', S ''i/o timeout'']),
      ex_data, polled 3 ''p-1'' ex_remote)"
proof -
  let ?k1 = "ex_provider ex_transient_then_gone"
  let ?k2 = "ex_provider ex_transient_then_found"
  let ?k3 = "ex_provider ex_stays_transient"
  have h1: "(\<forall>n<1. transientAt ?k1 (d_Id ex_data) ex_remote n) \<and> 1 < TimeoutRead ex_data \<and>
      \<not> transientAt ?k1 (d_Id ex_data) ex_remote 1"
    by (simp add: transientAt_def ex_provider_def ex_data_def ex_remote_def
        ex_transient_then_gone_def)
  have h2: "(\<forall>n<1. transientAt ?k2 (d_Id ex_data) ex_remote n) \<and> 1 < TimeoutRead ex_data \<and>
      GetProject ?k2 (gets ex_remote + 1) (d_Id ex_data) = Inr (ex_project projectActive) \<and>
      (\<forall>key. SetFails ex_data key = None)"
    by (simp add: transientAt_def ex_provider_def ex_data_def ex_remote_def
        ex_transient_then_found_def)
  have h3: "(\<forall>n<TimeoutRead ex_data. transientAt ?k3 (d_Id ex_data) ex_remote n) \<and>
      0 < TimeoutRead ex_data \<and>
      GetProject ?k3 (gets ex_remote + (TimeoutRead ex_data - 1)) (d_Id ex_data) =
        Inl (NetError True False ''i/o timeout'')"
    by (simp add: transientAt_def ex_provider_def ex_data_def ex_stays_transient_def)
  have i: "d_Id ex_data = ''p-1''" and t: "TimeoutRead ex_data = 3"
    by (simp_all add: ex_data_def)
  have r1: "readAttempt ?k1 (ex_data, polled 1 (d_Id ex_data) ex_remote) =
      (None, ex_data\<lparr>d_Id := []\<rparr>, polled 2 ''p-1'' ex_remote)"
    by (simp add: readAttempt_def call_GetProject_def polled_def ex_provider_def i
        ex_remote_def ex_transient_then_gone_def numeral_2_eq_2)
  have "resourceProjectRead ?k1 ex_data ex_remote =
      (None, ex_data\<lparr>d_Id := []\<rparr>, polled 2 ''p-1'' ex_remote)"
    using read_absorbs_transient_errors [THEN conjunct1, THEN mp, OF h1]
    unfolding r1 by simp
  moreover have "resourceProjectRead ?k2 ex_data ex_remote =
      (None, populate ex_data (ex_project projectActive), polled 2 ''p-1'' ex_remote)"
    using read_absorbs_transient_errors [THEN conjunct2, THEN conjunct1, THEN mp, OF h2]
    unfolding i by (simp add: numeral_2_eq_2)
  moreover have "resourceProjectRead ?k3 ex_data ex_remote =
      (Some (Errorf ''network issue occured while trying to read project '%s': %s''
              [S ''p-1'', S ''i/o timeout'']),
       ex_data, polled 3 ''p-1'' ex_remote)"
    using read_absorbs_transient_errors [THEN conjunct2, THEN conjunct2, THEN mp, OF h3]
    unfolding i t .
  ultimately show ?thesis
    by (intro conjI)
qed

text \<open>
  C1 does not hold for the wait loops of Delete and Create: there a network timeout
  of the first probe ends the operation with that error, although the next probe would
  have answered not found (Delete) or Active (Create).
\<close>

theorem transient_error_aborts_delete_and_create:
  "transientAt (ex_provider ex_transient_then_gone) ''p-1'' ex_remote 0
   \<and> absentAt (ex_provider ex_transient_then_gone) ''p-1'' ex_remote 1
   \<and> resourceProjectDelete (ex_provider ex_transient_then_gone) ex_data ex_remote =
       (Some (NetError True False ''i/o timeout''), ex_data,
        \<lparr>gets = 1, sent = [DeleteReq ''p-1'', GetReq ''p-1'']\<rparr>)
   \<and> transientAt (ex_provider ex_transient_then_found) ''p-1'' ex_remote 0
   \<and> activeAt (ex_provider ex_transient_then_found) ''p-1'' ex_remote 1
   \<and> fst (resourceProjectCreate (ex_provider ex_transient_then_found)
            (ex_data\<lparr>d_Id := []\<rparr>) ex_remote) =
       Some (Errorf ''error while waiting for project '%s' to be created: %s''
               [S ''p-1'', E (NetError True False ''i/o timeout'')])"
proof (intro conjI)
  show "transientAt (ex_provider ex_transient_then_gone) ''p-1'' ex_remote 0"
    by (simp add: transientAt_def ex_defs)
  show "absentAt (ex_provider ex_transient_then_gone) ''p-1'' ex_remote 1"
    by (simp add: absentAt_def ex_defs)
  show "resourceProjectDelete (ex_provider ex_transient_then_gone) ex_data ex_remote =
       (Some (NetError True False ''i/o timeout''), ex_data,
        \<lparr>gets = 1, sent = [DeleteReq ''p-1'', GetReq ''p-1'']\<rparr>)"
    by (simp add: resourceProjectDelete_def deleteAttempt_def run_defs ex_defs)
  show "transientAt (ex_provider ex_transient_then_found) ''p-1'' ex_remote 0"
    by (simp add: transientAt_def ex_defs)
  show "activeAt (ex_provider ex_transient_then_found) ''p-1'' ex_remote 1"
    by (simp add: activeAt_def ex_defs)
  show "fst (resourceProjectCreate (ex_provider ex_transient_then_found)
            (ex_data\<lparr>d_Id := []\<rparr>) ex_remote) =
       Some (Errorf ''error while waiting for project '%s' to be created: %s''
               [S ''p-1'', E (NetError True False ''i/o timeout'')])"
    by (simp add: resourceProjectCreate_def run_defs ex_defs)
qed

section \<open>Update\<close>

lemma update_fresh:
  "k \<notin> fst ` set ys \<Longrightarrow> AList.update k v ys = ys @ [(k, v)]"
  by (induction ys) auto

lemma fold_update_append:
  assumes "distinct (map fst xs)" and "fst ` set ys \<inter> fst ` set xs = {}"
  shows "fold (\<lambda>(key, val) m. AList.update key val m) xs ys = ys @ xs"
  using assms
proof (induction xs arbitrary: ys)
  case Nil
  then show ?case by simp
next
  case (Cons x xs)
  obtain k v where x: "x = (k, v)" by (cases x)
  from Cons.prems x have fresh: "k \<notin> fst ` set ys" by auto
  have "fst ` set (ys @ [(k, v)]) \<inter> fst ` set xs = {}"
    using Cons.prems x by auto
  moreover have "distinct (map fst xs)"
    using Cons.prems by simp
  ultimately have "fold (\<lambda>(key, val) m. AList.update key val m) xs (ys @ [(k, v)]) =
      (ys @ [(k, v)]) @ xs"
    by (rule Cons.IH [rotated])
  with fresh x show ?case by (simp add: update_fresh)
qed

lemma copyLabels_distinct: "distinct (map fst att) \<Longrightarrow> copyLabels att = att"
  using fold_update_append [of att "[]"] by (simp add: copyLabels_def)

lemma readAttempt_retryable_keeps:
  assumes "fst (readAttempt k (d, w)) = Some rerr" and "Retryable rerr"
  shows "fst (snd (readAttempt k (d, w))) = d"
  using assms
  by (auto simp: readAttempt_def call_GetProject_polled Set_attr_def NonRetryableError_def
      split: sum.splits go_error.splits option.splits if_splits)

lemma retryLoop_read_remote:
  "\<exists>n. snd (snd (retryLoop m (readAttempt k) r (d, w))) = polled n (d_Id d) w"
proof (induction m arbitrary: w r)
  case 0
  have "w = polled 0 (d_Id d) w" by (simp add: polled_0)
  then show ?case by (cases r) auto
next
  case (Suc m)
  obtain x d' w' where a: "readAttempt k (d, w) = (x, (d', w'))"
    by (metis surj_pair)
  have w': "w' = polled (Suc 0) (d_Id d) w"
    using readAttempt_remote [of k d w] a by simp
  show ?case
  proof (cases x)
    case None
    with a w' show ?thesis by auto
  next
    case (Some rerr)
    show ?thesis
    proof (cases "Retryable rerr")
      case True
      with readAttempt_retryable_keeps [of k d w rerr] a Some have "d' = d" by simp
      moreover from Suc.IH [of "Some (Err rerr)" w']
      obtain n where "snd (snd (retryLoop m (readAttempt k) (Some (Err rerr)) (d, w'))) =
          polled n (d_Id d) w'" ..
      ultimately have "snd (snd (retryLoop (Suc m) (readAttempt k) r (d, w))) =
          polled (Suc n) (d_Id d) w"
        using a Some True by (simp add: w' polled_Suc)
      then show ?thesis ..
    next
      case False
      with a Some w' show ?thesis by auto
    qed
  qed
qed

lemma read_remote: "\<exists>n. snd (snd (resourceProjectRead k d w)) = polled n (d_Id d) w"
  using retryLoop_read_remote [of "TimeoutRead d" k None d w]
  by (simp add: resourceProjectRead_def Retry_retryLoop split: prod.splits)

text \<open>
  C2. Every Update sends one update request, for the stored identity, before anything
  else. Its payload always holds the desired name. It holds labels exactly when
  \<open>HasChange\<close> flags the labels, and then the labels are the whole desired map
  (a Go map has distinct keys).
\<close>

theorem update_payload:
  "(\<exists>n. snd (snd (resourceProjectUpdate k d w)) =
          polled n (d_Id d) (w\<lparr>sent := sent w @ [UpdateReq (d_Id d) (updateBody d)]\<rparr>))
   \<and> Name (updateBody d) = name d
   \<and> (Labels (updateBody d) = None) = (\<not> HasChange d ''labels'')
   \<and> (HasChange d ''labels'' \<and> distinct (map fst (labels d)) \<longrightarrow>
        Labels (updateBody d) = Some (labels d))"
proof (intro conjI impI)
  let ?w = "w\<lparr>sent := sent w @ [UpdateReq (d_Id d) (updateBody d)]\<rparr>"
  show "\<exists>n. snd (snd (resourceProjectUpdate k d w)) = polled n (d_Id d) ?w"
  proof (cases "UpdateProject k (d_Id d) (updateBody d)")
    case None
    with read_remote [of k d ?w] show ?thesis
      by (simp add: resourceProjectUpdate_def call_UpdateProject_def)
  next
    case (Some err)
    have "?w = polled 0 (d_Id d) ?w" by (simp add: polled_0)
    with Some show ?thesis
      by (auto simp: resourceProjectUpdate_def call_UpdateProject_def)
  qed
  show "Name (updateBody d) = name d"
    by (simp add: updateBody_def Let_def)
  show "(Labels (updateBody d) = None) = (\<not> HasChange d ''labels'')"
    by (simp add: updateBody_def Let_def)
  show "Labels (updateBody d) = Some (labels d)"
    if "HasChange d ''labels'' \<and> distinct (map fst (labels d))"
    using that by (simp add: updateBody_def Let_def copyLabels_distinct)
qed

theorem update_payload_witness:
  "HasChange ex_update ''labels'' \<and> \<not> HasChange ex_update ''name''
   \<and> distinct (map fst (labels ex_update))
   \<and> (\<exists>n. snd (snd (resourceProjectUpdate (ex_provider ex_stays_found) ex_update ex_remote)) =
          polled n ''p-1''
            (ex_remote\<lparr>sent := [UpdateReq ''p-1'' (updateBody ex_update)]\<rparr>))
   \<and> Name (updateBody ex_update) = ''team-a''
   \<and> Labels (updateBody ex_update) = Some [(''a'', ''1''), (''b'', ''2'')]
   \<and> Labels (updateBody ex_data) = None"
proof -
  let ?k = "ex_provider ex_stays_found"
  have c: "HasChange ex_update ''labels''" and n: "\<not> HasChange ex_update ''name''"
    and n': "\<not> HasChange ex_data ''labels''"
    by (auto simp: HasChange_def ex_update_def ex_data_def)
  have d: "distinct (map fst (labels ex_update))"
    by (simp add: ex_update_def)
  from c d have h: "HasChange ex_update ''labels'' \<and> distinct (map fst (labels ex_update))" ..
  have i: "d_Id ex_update = ''p-1''" and s: "sent ex_remote = []"
    by (simp_all add: ex_update_def ex_data_def ex_remote_def)
  have "\<exists>n. snd (snd (resourceProjectUpdate ?k ex_update ex_remote)) =
          polled n ''p-1'' (ex_remote\<lparr>sent := [UpdateReq ''p-1'' (updateBody ex_update)]\<rparr>)"
    using update_payload [of ?k ex_update ex_remote, THEN conjunct1]
    by (simp only: i s append_Nil)
  moreover have "Name (updateBody ex_update) = ''team-a''"
    using update_payload [of ?k ex_update ex_remote, THEN conjunct2, THEN conjunct1]
    by (simp add: ex_update_def ex_data_def)
  moreover have "Labels (updateBody ex_update) = Some [(''a'', ''1''), (''b'', ''2'')]"
    using update_payload [of ?k ex_update ex_remote, THEN conjunct2, THEN conjunct2,
      THEN conjunct2, THEN mp, OF h]
    by (simp add: ex_update_def)
  moreover have "Labels (updateBody ex_data) = None"
    using update_payload [of ?k ex_data ex_remote, THEN conjunct2, THEN conjunct2,
      THEN conjunct1] n'
    by simp
  ultimately show ?thesis
    using c n d by (intro conjI)
qed

section \<open>Forbidden and not found\<close>

lemma readAttempt_forbiddenAsNotFound:
  "readAttempt (forbiddenAsNotFound k) = readAttempt k"
  by (auto simp: readAttempt_def call_GetProject_def forbiddenAsNotFound_def asNotFound_def
      fun_eq_iff split: sum.splits go_error.splits)

lemma deleteAttempt_forbiddenAsNotFound:
  "deleteAttempt (forbiddenAsNotFound k) d = deleteAttempt k d"
  by (auto simp: deleteAttempt_def call_GetProject_def forbiddenAsNotFound_def asNotFound_def
      fun_eq_iff split: sum.splits go_error.splits)

text \<open>
  C4. Where a remote error is classified, in Read and in the wait loop of Delete,
  forbidden and not found are the same: answering not found wherever the client answers
  forbidden changes neither the result nor the local state nor the requests sent.
\<close>

theorem forbidden_same_as_not_found:
  "resourceProjectRead (forbiddenAsNotFound k) d w = resourceProjectRead k d w
   \<and> resourceProjectDelete (forbiddenAsNotFound k) d w = resourceProjectDelete k d w"
proof
  show "resourceProjectRead (forbiddenAsNotFound k) d w = resourceProjectRead k d w"
    by (simp add: resourceProjectRead_def readAttempt_forbiddenAsNotFound)
  have "DeleteProject (forbiddenAsNotFound k) = DeleteProject k"
    by (simp add: forbiddenAsNotFound_def)
  then show "resourceProjectDelete (forbiddenAsNotFound k) d w = resourceProjectDelete k d w"
    by (simp add: resourceProjectDelete_def call_DeleteProject_def
        deleteAttempt_forbiddenAsNotFound split: option.splits)
qed

theorem forbidden_same_witness:
  "resourceProjectRead (ex_provider ex_forbidden) ex_data ex_remote =
     resourceProjectRead (ex_provider ex_gone) ex_data ex_remote
   \<and> resourceProjectDelete (ex_provider ex_forbidden) ex_data ex_remote =
     resourceProjectDelete (ex_provider ex_gone) ex_data ex_remote"
proof -
  have "forbiddenAsNotFound (ex_provider ex_forbidden) = ex_provider ex_gone"
    by (simp add: forbiddenAsNotFound_def ex_provider_def ex_forbidden_def ex_gone_def
        asNotFound_def)
  with forbidden_same_as_not_found [of "ex_provider ex_forbidden" ex_data ex_remote]
  show ?thesis by simp
qed

section \<open>Errors of Update, Create and Delete\<close>

lemma update_call_fails:
  assumes "UpdateProject k (d_Id d) (updateBody d) = Some err"
  shows "resourceProjectUpdate k d w =
           (Some (Errorf ''unable to update project '%s': %v'' [S (d_Id d), E err]), d,
            w\<lparr>sent := sent w @ [UpdateReq (d_Id d) (updateBody d)]\<rparr>)"
  using assms by (simp add: resourceProjectUpdate_def call_UpdateProject_def)

lemma update_call_succeeds:
  assumes "UpdateProject k (d_Id d) (updateBody d) = None"
  shows "resourceProjectUpdate k d w =
           resourceProjectRead k d (w\<lparr>sent := sent w @ [UpdateReq (d_Id d) (updateBody d)]\<rparr>)"
  using assms by (simp add: resourceProjectUpdate_def call_UpdateProject_def)

lemma create_call_fails:
  assumes "CreateProject k (createBody d) = Inl err"
  shows "resourceProjectCreate k d w =
           (Some (Errorf ''error when creating a project: %s'' [E err]), d,
            w\<lparr>sent := sent w @ [CreateReq (createBody d)]\<rparr>)"
  using assms by (simp add: resourceProjectCreate_def call_CreateProject_def)

lemma create_wait_fails:
  assumes "CreateProject k (createBody d) = Inr r"
    and "snd (fst (WaitForState (createStateConf d) (createRefresh k (ID r))
           (w\<lparr>sent := sent w @ [CreateReq (createBody d)]\<rparr>))) = Some perr"
  shows "resourceProjectCreate k d w =
           (Some (Errorf ''error while waiting for project '%s' to be created: %s''
                    [S (ID r), E perr]), d,
            snd (WaitForState (createStateConf d) (createRefresh k (ID r))
                   (w\<lparr>sent := sent w @ [CreateReq (createBody d)]\<rparr>)))"
  using assms
  by (auto simp: resourceProjectCreate_def call_CreateProject_def split: prod.splits)

lemma create_wait_succeeds:
  assumes "CreateProject k (createBody d) = Inr r"
    and "snd (fst (WaitForState (createStateConf d) (createRefresh k (ID r))
           (w\<lparr>sent := sent w @ [CreateReq (createBody d)]\<rparr>))) = None"
  shows "resourceProjectCreate k d w =
           resourceProjectRead k (d\<lparr>d_Id := ID r\<rparr>)
             (snd (WaitForState (createStateConf d) (createRefresh k (ID r))
                     (w\<lparr>sent := sent w @ [CreateReq (createBody d)]\<rparr>)))"
  using assms
  by (auto simp: resourceProjectCreate_def call_CreateProject_def split: prod.splits)

lemma delete_call_fails:
  assumes "DeleteProject k (d_Id d) = Some err"
  shows "resourceProjectDelete k d w =
           (Some (Errorf ''unable to delete project '%s': %s'' [S (d_Id d), E err]), d,
            w\<lparr>sent := sent w @ [DeleteReq (d_Id d)]\<rparr>)"
  using assms by (simp add: resourceProjectDelete_def call_DeleteProject_def)

lemma create_wait_saw_active:
  assumes "snd (fst (refreshLoop m (createStateConf d) (createRefresh k i) tick ls w)) = None"
  shows "\<exists>n p. GetProject k n i = Inr p \<and> Status p = projectActive"
  using assms
proof (induction m arbitrary: tick ls w)
  case 0
  then show ?case by simp
next
  case (Suc m)
  show ?case
  proof (cases "GetProject k (gets w) i")
    case (Inl e)
    with Suc.prems show ?thesis
      by (simp add: createRefresh_error)
  next
    case (Inr p)
    show ?thesis
    proof (cases "Status p = projectActive")
      case True
      with Inr show ?thesis by blast
    next
      case False
      show ?thesis
      proof (cases "Status p = projectInactive")
        case True
        with Suc.prems Inr False
        have "snd (fst (refreshLoop m (createStateConf d) (createRefresh k i) 0 projectInactive
                 (polled (Suc 0) i w))) = None"
          by (simp add: createRefresh_found createStateConf_def)
        then show ?thesis by (rule Suc.IH)
      next
        case inact: False
        with Suc.prems Inr False show ?thesis
          by (simp add: createRefresh_found createStateConf_def)
      qed
    qed
  qed
qed

text \<open>
  C7, as the code has it. A failure of the remote update call, whatever its kind, is
  returned as an error and the local state is unchanged. When the update call succeeds,
  Update is Read from there on, and Read classifies as it always does: when its probe
  answers forbidden or not found, Update returns no error and clears the stored
  identity.
\<close>

theorem update_not_found:
  "(UpdateProject k (d_Id d) (updateBody d) = Some err \<longrightarrow>
      resourceProjectUpdate k d w =
        (Some (Errorf ''unable to update project '%s': %v'' [S (d_Id d), E err]), d,
         w\<lparr>sent := sent w @ [UpdateReq (d_Id d) (updateBody d)]\<rparr>))
   \<and> (UpdateProject k (d_Id d) (updateBody d) = None \<longrightarrow>
      resourceProjectUpdate k d w =
        resourceProjectRead k d (w\<lparr>sent := sent w @ [UpdateReq (d_Id d) (updateBody d)]\<rparr>))
   \<and> (UpdateProject k (d_Id d) (updateBody d) = None \<and>
       (\<forall>n<j. transientAt k (d_Id d) w n) \<and> j < TimeoutRead d \<and> absentAt k (d_Id d) w j \<longrightarrow>
      resourceProjectUpdate k d w =
        (None, d\<lparr>d_Id := []\<rparr>,
         polled (Suc j) (d_Id d) (w\<lparr>sent := sent w @ [UpdateReq (d_Id d) (updateBody d)]\<rparr>)))"
proof (intro conjI impI)
  assume "UpdateProject k (d_Id d) (updateBody d) = Some err"
  then show "resourceProjectUpdate k d w =
        (Some (Errorf ''unable to update project '%s': %v'' [S (d_Id d), E err]), d,
         w\<lparr>sent := sent w @ [UpdateReq (d_Id d) (updateBody d)]\<rparr>)"
    by (rule update_call_fails)
next
  assume "UpdateProject k (d_Id d) (updateBody d) = None"
  then show "resourceProjectUpdate k d w =
        resourceProjectRead k d (w\<lparr>sent := sent w @ [UpdateReq (d_Id d) (updateBody d)]\<rparr>)"
    by (rule update_call_succeeds)
next
  let ?w = "w\<lparr>sent := sent w @ [UpdateReq (d_Id d) (updateBody d)]\<rparr>"
  assume a: "UpdateProject k (d_Id d) (updateBody d) = None \<and>
       (\<forall>n<j. transientAt k (d_Id d) w n) \<and> j < TimeoutRead d \<and> absentAt k (d_Id d) w j"
  then have "\<forall>n<j. transientAt k (d_Id d) ?w n" and "j < TimeoutRead d"
    and "absentAt k (d_Id d) ?w j"
    by (simp_all add: transientAt_def absentAt_sent)
  from read_absent_after_transients [OF this] update_call_succeeds [OF conjunct1 [OF a], of w]
  show "resourceProjectUpdate k d w = (None, d\<lparr>d_Id := []\<rparr>, polled (Suc j) (d_Id d) ?w)"
    by simp
qed

theorem update_not_found_witness:
  "resourceProjectUpdate ex_update_rejected ex_data ex_remote =
     (Some (Errorf ''unable to update project '%s': %v''
              [S ''p-1'', E (OtherError ''404 not found'')]),
      ex_data, ex_remote\<lparr>sent := [UpdateReq ''p-1'' (updateBody ex_data)]\<rparr>)
   \<and> resourceProjectUpdate (ex_provider ex_stays_found) ex_data ex_remote =
       resourceProjectRead (ex_provider ex_stays_found) ex_data
         (ex_remote\<lparr>sent := [UpdateReq ''p-1'' (updateBody ex_data)]\<rparr>)
   \<and> resourceProjectUpdate (ex_provider ex_forbidden) ex_data ex_remote =
       (None, ex_data\<lparr>d_Id := []\<rparr>,
        polled 1 ''p-1'' (ex_remote\<lparr>sent := [UpdateReq ''p-1'' (updateBody ex_data)]\<rparr>))"
proof -
  have i: "d_Id ex_data = ''p-1''" and s: "sent ex_remote = []"
    by (simp_all add: ex_data_def ex_remote_def)
  have h1: "UpdateProject ex_update_rejected (d_Id ex_data) (updateBody ex_data) =
      Some (OtherError ''404 not found'')"
    by (simp add: ex_update_rejected_def)
  have h2: "UpdateProject (ex_provider ex_stays_found) (d_Id ex_data) (updateBody ex_data) = None"
    by (simp add: ex_provider_def)
  have h3: "UpdateProject (ex_provider ex_forbidden) (d_Id ex_data) (updateBody ex_data) = None \<and>
      (\<forall>n<0. transientAt (ex_provider ex_forbidden) (d_Id ex_data) ex_remote n) \<and>
      0 < TimeoutRead ex_data \<and> absentAt (ex_provider ex_forbidden) (d_Id ex_data) ex_remote 0"
    by (simp add: ex_provider_def ex_data_def absentAt_def ex_forbidden_def)
  from update_not_found [THEN conjunct1, THEN mp, OF h1, of ex_remote]
       update_not_found [THEN conjunct2, THEN conjunct1, THEN mp, OF h2, of ex_remote]
       update_not_found [THEN conjunct2, THEN conjunct2, THEN mp, OF h3]
  show ?thesis
    by (simp only: i s append_Nil One_nat_def simp_thms)
qed

text \<open>
  C7 does not hold for the step after the update call: the update succeeds, the probe
  of the Read that follows answers not found, and Update returns no error.
\<close>

theorem update_after_not_found_succeeds:
  "UpdateProject (ex_provider ex_gone) ''p-1'' (updateBody ex_data) = None
   \<and> GetProject (ex_provider ex_gone) 0 ''p-1'' = Inl (GetProjectDefault 404)
   \<and> resourceProjectUpdate (ex_provider ex_gone) ex_data ex_remote =
       (None, ex_data\<lparr>d_Id := []\<rparr>,
        \<lparr>gets = 1, sent = [UpdateReq ''p-1'' (updateBody ex_data), GetReq ''p-1'']\<rparr>)"
  by (simp add: resourceProjectUpdate_def resourceProjectRead_def readAttempt_def run_defs
      ex_defs ex_gone_def)

text \<open>
  C8, as the code has it. The errors that Create, Update and Delete build at their own
  call sites name the operation in their format string and, but for the create call
  that has no identity yet, carry the identity of the project as an argument, with the
  cause.
\<close>

theorem errors_wrapped_at_call_sites:
  "(CreateProject k (createBody d) = Inl err \<longrightarrow>
      fst (resourceProjectCreate k d w) =
        Some (Errorf ''error when creating a project: %s'' [E err]))
   \<and> (CreateProject k (createBody d) = Inr r \<and>
       snd (fst (WaitForState (createStateConf d) (createRefresh k (ID r))
                   (w\<lparr>sent := sent w @ [CreateReq (createBody d)]\<rparr>))) = Some err \<longrightarrow>
      fst (resourceProjectCreate k d w) =
        Some (Errorf ''error while waiting for project '%s' to be created: %s''
                [S (ID r), E err]))
   \<and> (UpdateProject k (d_Id d) (updateBody d) = Some err \<longrightarrow>
      fst (resourceProjectUpdate k d w) =
        Some (Errorf ''unable to update project '%s': %v'' [S (d_Id d), E err]))
   \<and> (DeleteProject k (d_Id d) = Some err \<longrightarrow>
      fst (resourceProjectDelete k d w) =
        Some (Errorf ''unable to delete project '%s': %s'' [S (d_Id d), E err]))"
proof (intro conjI impI)
  assume "CreateProject k (createBody d) = Inl err"
  from create_call_fails [OF this, of w]
  show "fst (resourceProjectCreate k d w) =
      Some (Errorf ''error when creating a project: %s'' [E err])"
    by simp
next
  assume a: "CreateProject k (createBody d) = Inr r \<and>
       snd (fst (WaitForState (createStateConf d) (createRefresh k (ID r))
                   (w\<lparr>sent := sent w @ [CreateReq (createBody d)]\<rparr>))) = Some err"
  from create_wait_fails [OF conjunct1 [OF a] conjunct2 [OF a]]
  show "fst (resourceProjectCreate k d w) =
      Some (Errorf ''error while waiting for project '%s' to be created: %s''
              [S (ID r), E err])"
    by simp
next
  assume "UpdateProject k (d_Id d) (updateBody d) = Some err"
  from update_call_fails [OF this, of w]
  show "fst (resourceProjectUpdate k d w) =
      Some (Errorf ''unable to update project '%s': %v'' [S (d_Id d), E err])"
    by simp
next
  assume "DeleteProject k (d_Id d) = Some err"
  from delete_call_fails [OF this, of w]
  show "fst (resourceProjectDelete k d w) =
      Some (Errorf ''unable to delete project '%s': %s'' [S (d_Id d), E err])"
    by simp
qed

theorem errors_wrapped_witness:
  "fst (resourceProjectCreate ex_create_rejected ex_new ex_remote) =
     Some (Errorf ''error when creating a project: %s'' [E (OtherError ''quota exceeded'')])
   \<and> fst (resourceProjectCreate (ex_provider ex_unauthorized) ex_new ex_remote) =
     Some (Errorf ''error while waiting for project '%s' to be created: %s''
             [S ''p-1'', E GetProjectUnauthorized])
   \<and> fst (resourceProjectUpdate ex_update_rejected ex_data ex_remote) =
     Some (Errorf ''unable to update project '%s': %v''
             [S ''p-1'', E (OtherError ''404 not found'')])
   \<and> fst (resourceProjectDelete ex_delete_rejected ex_data ex_remote) =
     Some (Errorf ''unable to delete project '%s': %s'' [S ''p-1'', E (OtherError ''conflict'')])"
proof -
  let ?k = "ex_provider ex_unauthorized"
  have i: "d_Id ex_data = ''p-1''" and j: "ID (ex_project projectInactive) = ''p-1''"
    by (simp_all add: ex_data_def ex_project_def)
  have h1: "CreateProject ex_create_rejected (createBody ex_new) =
      Inl (OtherError ''quota exceeded'')"
    by (simp add: ex_create_rejected_def)
  have h2: "CreateProject ?k (createBody ex_new) = Inr (ex_project projectInactive) \<and>
      snd (fst (WaitForState (createStateConf ex_new)
                  (createRefresh ?k (ID (ex_project projectInactive)))
                  (ex_remote\<lparr>sent := sent ex_remote @ [CreateReq (createBody ex_new)]\<rparr>))) =
        Some GetProjectUnauthorized"
    by (simp add: ex_new_def run_defs ex_defs ex_unauthorized_def)
  have h3: "UpdateProject ex_update_rejected (d_Id ex_data) (updateBody ex_data) =
      Some (OtherError ''404 not found'')"
    by (simp add: ex_update_rejected_def)
  have h4: "DeleteProject ex_delete_rejected (d_Id ex_data) = Some (OtherError ''conflict'')"
    by (simp add: ex_delete_rejected_def)
  from errors_wrapped_at_call_sites [THEN conjunct1, THEN mp, OF h1, of ex_remote]
    errors_wrapped_at_call_sites [THEN conjunct2, THEN conjunct1, THEN mp, OF h2]
    errors_wrapped_at_call_sites [THEN conjunct2, THEN conjunct2, THEN conjunct1, THEN mp,
      OF h3, of ex_remote]
    errors_wrapped_at_call_sites [THEN conjunct2, THEN conjunct2, THEN conjunct2, THEN mp,
      OF h4, of ex_remote]
  show ?thesis
    by (simp only: i j simp_thms)
qed

text \<open>
  C8 does not hold for every error: an unauthorized answer to a probe is returned by
  Read and by Delete as the client gave it.
\<close>

theorem read_and_delete_surface_raw_errors:
  "GetProject (ex_provider ex_unauthorized) 0 ''p-1'' = Inl GetProjectUnauthorized
   \<and> fst (resourceProjectRead (ex_provider ex_unauthorized) ex_data ex_remote) =
       Some GetProjectUnauthorized
   \<and> fst (resourceProjectDelete (ex_provider ex_unauthorized) ex_data ex_remote) =
       Some GetProjectUnauthorized"
  by (simp add: resourceProjectRead_def resourceProjectDelete_def readAttempt_def
      deleteAttempt_def run_defs ex_defs ex_unauthorized_def)

text \<open>
  C9. When the remote create call fails, or the wait that follows ends with an error of
  any kind, Create returns an error and the local state, the stored identity included,
  is what it was. Whenever Create changes the local state, the create call succeeded
  and a probe found the new project Active.
\<close>

theorem create_failure_leaves_identity:
  "(CreateProject k (createBody d) = Inl err \<longrightarrow>
      (\<exists>e w'. resourceProjectCreate k d w = (Some e, d, w')))
   \<and> (CreateProject k (createBody d) = Inr r \<and>
       snd (fst (WaitForState (createStateConf d) (createRefresh k (ID r))
                   (w\<lparr>sent := sent w @ [CreateReq (createBody d)]\<rparr>))) = Some err \<longrightarrow>
      (\<exists>e w'. resourceProjectCreate k d w = (Some e, d, w')))
   \<and> (fst (snd (resourceProjectCreate k d w)) \<noteq> d \<longrightarrow>
      (\<exists>r n p. CreateProject k (createBody d) = Inr r \<and>
         GetProject k n (ID r) = Inr p \<and> Status p = projectActive))"
proof (intro conjI impI)
  assume "CreateProject k (createBody d) = Inl err"
  from create_call_fails [OF this]
  show "\<exists>e w'. resourceProjectCreate k d w = (Some e, d, w')" by blast
next
  assume a: "CreateProject k (createBody d) = Inr r \<and>
       snd (fst (WaitForState (createStateConf d) (createRefresh k (ID r))
                   (w\<lparr>sent := sent w @ [CreateReq (createBody d)]\<rparr>))) = Some err"
  from create_wait_fails [OF conjunct1 [OF a] conjunct2 [OF a]]
  show "\<exists>e w'. resourceProjectCreate k d w = (Some e, d, w')" by blast
next
  let ?w = "w\<lparr>sent := sent w @ [CreateReq (createBody d)]\<rparr>"
  assume changed: "fst (snd (resourceProjectCreate k d w)) \<noteq> d"
  show "\<exists>r n p. CreateProject k (createBody d) = Inr r \<and>
         GetProject k n (ID r) = Inr p \<and> Status p = projectActive"
  proof (cases "CreateProject k (createBody d)")
    case (Inl err)
    from create_call_fails [OF this, of w] changed show ?thesis by simp
  next
    case (Inr r)
    show ?thesis
    proof (cases "snd (fst (WaitForState (createStateConf d) (createRefresh k (ID r)) ?w))")
      case (Some perr)
      from create_wait_fails [OF Inr this] changed show ?thesis by simp
    next
      case None
      then have "\<exists>n p. GetProject k n (ID r) = Inr p \<and> Status p = projectActive"
        unfolding WaitForState_def by (rule create_wait_saw_active)
      with Inr show ?thesis by blast
    qed
  qed
qed

theorem create_failure_witness:
  "(\<exists>e w'. resourceProjectCreate ex_create_rejected ex_new ex_remote = (Some e, ex_new, w'))
   \<and> (\<exists>e w'. resourceProjectCreate (ex_provider ex_unauthorized) ex_new ex_remote =
         (Some e, ex_new, w'))
   \<and> fst (snd (resourceProjectCreate (ex_provider ex_becomes_active) ex_new ex_remote)) \<noteq> ex_new
   \<and> (\<exists>r n p. CreateProject (ex_provider ex_becomes_active) (createBody ex_new) = Inr r \<and>
         GetProject (ex_provider ex_becomes_active) n (ID r) = Inr p \<and>
         Status p = projectActive)"
proof -
  let ?k = "ex_provider ex_unauthorized"
  let ?k' = "ex_provider ex_becomes_active"
  have h1: "CreateProject ex_create_rejected (createBody ex_new) =
      Inl (OtherError ''quota exceeded'')"
    by (simp add: ex_create_rejected_def)
  have h2: "CreateProject ?k (createBody ex_new) = Inr (ex_project projectInactive) \<and>
      snd (fst (WaitForState (createStateConf ex_new)
                  (createRefresh ?k (ID (ex_project projectInactive)))
                  (ex_remote\<lparr>sent := sent ex_remote @ [CreateReq (createBody ex_new)]\<rparr>))) =
        Some GetProjectUnauthorized"
    by (simp add: ex_new_def run_defs ex_defs ex_unauthorized_def)
  have "d_Id (fst (snd (resourceProjectCreate ?k' ex_new ex_remote))) = ''p-1''"
    by (simp add: resourceProjectCreate_def resourceProjectRead_def readAttempt_def Set_attr_def
        ex_new_def run_defs ex_defs ex_becomes_active_def)
  moreover have "d_Id ex_new = []"
    by (simp add: ex_new_def)
  ultimately have h3: "fst (snd (resourceProjectCreate ?k' ex_new ex_remote)) \<noteq> ex_new"
    by auto
  from create_failure_leaves_identity [THEN conjunct1, THEN mp, OF h1, of ex_remote]
    create_failure_leaves_identity [THEN conjunct2, THEN conjunct1, THEN mp, OF h2]
    create_failure_leaves_identity [THEN conjunct2, THEN conjunct2, THEN mp, OF h3] h3
  show ?thesis
    by (intro conjI)
qed

end
